theory Spec2Isabelle
  imports Complex_Main
begin

section \<open>Floating-point values\<close>

text \<open>
  The indicator engine computes on pandas float columns. A cell is modelled by its exact
  real value or by one of the three special values of the float format. Rounding, overflow
  and the sign of zero are not represented: a finite result is the exact real result, and a
  nonzero finite value divided by zero is the infinity with the sign of the numerator.
  \<open>NaN\<close> is the "undefined" value of a column.
\<close>

datatype fl = Fin real | PInf | NInf | NaN

fun fl_neg :: "fl \<Rightarrow> fl" where
  "fl_neg (Fin a) = Fin (- a)"
| "fl_neg PInf = NInf"
| "fl_neg NInf = PInf"
| "fl_neg NaN = NaN"

fun fl_add :: "fl \<Rightarrow> fl \<Rightarrow> fl" where
  "fl_add NaN y = NaN"
| "fl_add x NaN = NaN"
| "fl_add (Fin a) (Fin b) = Fin (a + b)"
| "fl_add PInf NInf = NaN"
| "fl_add NInf PInf = NaN"
| "fl_add PInf y = PInf"
| "fl_add NInf y = NInf"
| "fl_add x PInf = PInf"
| "fl_add x NInf = NInf"

definition fl_sub :: "fl \<Rightarrow> fl \<Rightarrow> fl" where
  "fl_sub x y = fl_add x (fl_neg y)"

fun fl_mul :: "fl \<Rightarrow> fl \<Rightarrow> fl" where
  "fl_mul NaN y = NaN"
| "fl_mul x NaN = NaN"
| "fl_mul (Fin a) (Fin b) = Fin (a * b)"
| "fl_mul (Fin a) PInf = (if a = 0 then NaN else if 0 < a then PInf else NInf)"
| "fl_mul (Fin a) NInf = (if a = 0 then NaN else if 0 < a then NInf else PInf)"
| "fl_mul PInf (Fin b) = (if b = 0 then NaN else if 0 < b then PInf else NInf)"
| "fl_mul NInf (Fin b) = (if b = 0 then NaN else if 0 < b then NInf else PInf)"
| "fl_mul PInf PInf = PInf"
| "fl_mul PInf NInf = NInf"
| "fl_mul NInf PInf = NInf"
| "fl_mul NInf NInf = PInf"

fun fl_div :: "fl \<Rightarrow> fl \<Rightarrow> fl" where
  "fl_div NaN y = NaN"
| "fl_div x NaN = NaN"
| "fl_div (Fin a) (Fin b) =
     (if b = 0 then (if a = 0 then NaN else if 0 < a then PInf else NInf)
      else Fin (a / b))"
| "fl_div (Fin a) PInf = Fin 0"
| "fl_div (Fin a) NInf = Fin 0"
| "fl_div PInf (Fin b) = (if b < 0 then NInf else PInf)"
| "fl_div NInf (Fin b) = (if b < 0 then PInf else NInf)"
| "fl_div PInf y = NaN"
| "fl_div NInf y = NaN"

fun fl_abs :: "fl \<Rightarrow> fl" where
  "fl_abs (Fin a) = Fin \<bar>a\<bar>"
| "fl_abs PInf = PInf"
| "fl_abs NInf = PInf"
| "fl_abs NaN = NaN"

text \<open>Comparisons: every comparison with \<open>NaN\<close> is false.\<close>

fun fl_lt :: "fl \<Rightarrow> fl \<Rightarrow> bool" where
  "fl_lt NaN y = False"
| "fl_lt x NaN = False"
| "fl_lt (Fin a) (Fin b) = (a < b)"
| "fl_lt x NInf = False"
| "fl_lt PInf y = False"
| "fl_lt NInf y = True"
| "fl_lt x PInf = True"

fun fl_le :: "fl \<Rightarrow> fl \<Rightarrow> bool" where
  "fl_le NaN y = False"
| "fl_le x NaN = False"
| "fl_le (Fin a) (Fin b) = (a \<le> b)"
| "fl_le NInf y = True"
| "fl_le x PInf = True"
| "fl_le x NInf = False"
| "fl_le PInf y = False"

definition fl_gt :: "fl \<Rightarrow> fl \<Rightarrow> bool" where
  "fl_gt x y = fl_lt y x"

definition fl_ge :: "fl \<Rightarrow> fl \<Rightarrow> bool" where
  "fl_ge x y = fl_le y x"

section \<open>Series operations of the data-frame library\<close>

text \<open>
  A column (a pandas Series on the frame's index) is the list of its cells. The operations
  below are the library calls that \<^verbatim>\<open>indicators.py\<close> makes; binary operations
  are between columns of one frame, which have the same length.
\<close>

type_synonym series = "fl list"

definition series_add :: "series \<Rightarrow> series \<Rightarrow> series" where
  "series_add xs ys = map2 fl_add xs ys"

definition series_sub :: "series \<Rightarrow> series \<Rightarrow> series" where
  "series_sub xs ys = map2 fl_sub xs ys"

definition series_div :: "series \<Rightarrow> series \<Rightarrow> series" where
  "series_div xs ys = map2 fl_div xs ys"

definition series_neg :: "series \<Rightarrow> series" where
  "series_neg xs = map fl_neg xs"

definition np_abs :: "series \<Rightarrow> series" where
  "np_abs xs = map fl_abs xs"

text \<open>\<^verbatim>\<open>s.shift()\<close>: every cell moves one row down, the first cell is NaN.\<close>

definition shift :: "series \<Rightarrow> series" where
  "shift xs = take (length xs) (NaN # xs)"

text \<open>\<^verbatim>\<open>s.diff()\<close>: \<^verbatim>\<open>s - s.shift()\<close>.\<close>

definition diff :: "series \<Rightarrow> series" where
  "diff xs = series_sub xs (shift xs)"

text \<open>\<^verbatim>\<open>s.where(cond, other)\<close>: the cell where the condition holds, \<open>other\<close> elsewhere.\<close>

definition where_series :: "series \<Rightarrow> bool list \<Rightarrow> fl \<Rightarrow> series" where
  "where_series xs cond other = map2 (\<lambda>x c. if c then x else other) xs cond"

text \<open>
  \<^verbatim>\<open>np.max(ranges, axis=1)\<close> on a frame is the frame's own row-wise \<^verbatim>\<open>max\<close>,
  which skips NaN cells; a row of NaN cells only gives NaN.
\<close>

definition nanmax2 :: "fl \<Rightarrow> fl \<Rightarrow> fl" where
  "nanmax2 x y = (if x = NaN then y else if y = NaN then x else if fl_lt x y then y else x)"

definition row_max :: "series \<Rightarrow> series \<Rightarrow> series \<Rightarrow> series" where
  "row_max xs ys zs = map2 (\<lambda>x (y, z). nanmax2 (nanmax2 x y) z) xs (zip ys zs)"

subsection \<open>Rolling windows\<close>

text \<open>
  \<^verbatim>\<open>s.rolling(window=L)\<close> with the default \<^verbatim>\<open>min_periods\<close> (the window length): the
  statistic at row \<open>i\<close> is over the rows \<open>i+1-L .. i\<close>, and is NaN unless these are \<open>L\<close>
  rows that are all not NaN. An empty window (\<open>L = 0\<close>) has no observation and gives NaN.
  The engine rolls over columns whose cells are finite (prices, gains, losses, true ranges);
  the mean of a window that holds an infinity is given here by float addition.
\<close>

definition window :: "nat \<Rightarrow> nat \<Rightarrow> 'a list \<Rightarrow> 'a list" where
  "window L i xs = take L (drop (i + 1 - L) xs)"

definition rolling :: "nat \<Rightarrow> (series \<Rightarrow> fl) \<Rightarrow> series \<Rightarrow> series" where
  "rolling L f xs =
     map (\<lambda>i. if L = 0 \<or> i + 1 < L \<or> NaN \<in> set (window L i xs) then NaN
              else f (window L i xs)) [0..<length xs]"

definition fl_sum :: "series \<Rightarrow> fl" where
  "fl_sum w = foldl fl_add (Fin 0) w"

definition window_mean :: "series \<Rightarrow> fl" where
  "window_mean w = fl_div (fl_sum w) (Fin (real (length w)))"

fun finite_values :: "series \<Rightarrow> real list option" where
  "finite_values [] = Some []"
| "finite_values (Fin r # xs) = map_option ((#) r) (finite_values xs)"
| "finite_values (x # xs) = None"

definition mean :: "real list \<Rightarrow> real" where
  "mean rs = sum_list rs / real (length rs)"

definition sum_sq_dev :: "real list \<Rightarrow> real" where
  "sum_sq_dev rs = sum_list (map (\<lambda>r. (r - mean rs)\<^sup>2) rs)"

text \<open>
  \<^verbatim>\<open>.std()\<close> is called without arguments, so the library's default \<^verbatim>\<open>ddof=1\<close>
  applies: the squared deviations are divided by the number of observations minus one, and
  a window of fewer than two observations has no standard deviation.
\<close>

definition window_std :: "series \<Rightarrow> fl" where
  "window_std w =
     (case finite_values w of
        None \<Rightarrow> NaN
      | Some rs \<Rightarrow>
          if length rs \<le> 1 then NaN
          else Fin (sqrt (sum_sq_dev rs / (real (length rs) - 1))))"

definition window_min :: "series \<Rightarrow> fl" where
  "window_min w = foldl (\<lambda>m x. if fl_lt x m then x else m) (hd w) (tl w)"

definition window_max :: "series \<Rightarrow> fl" where
  "window_max w = foldl (\<lambda>m x. if fl_lt m x then x else m) (hd w) (tl w)"

definition rolling_mean :: "nat \<Rightarrow> series \<Rightarrow> series" where
  "rolling_mean L xs = rolling L window_mean xs"

definition rolling_std :: "nat \<Rightarrow> series \<Rightarrow> series" where
  "rolling_std L xs = rolling L window_std xs"

definition rolling_min :: "nat \<Rightarrow> series \<Rightarrow> series" where
  "rolling_min L xs = rolling L window_min xs"

definition rolling_max :: "nat \<Rightarrow> series \<Rightarrow> series" where
  "rolling_max L xs = rolling L window_max xs"

subsection \<open>Exponentially weighted mean\<close>

text \<open>
  \<^verbatim>\<open>s.ewm(alpha=a, adjust=False).mean()\<close>. The running state is the weighted mean so
  far and the weight of the old mean; a NaN cell repeats the mean and lets the old weight
  decay once more, the next observation is averaged in with the weights renormalised. The
  output is NaN until the first observation.
\<close>

fun ewm_step :: "real \<Rightarrow> fl \<times> real \<Rightarrow> fl \<Rightarrow> fl \<times> real" where
  "ewm_step alpha (weighted, old_wt) cur =
     (if weighted \<noteq> NaN then
        (if cur \<noteq> NaN then
           (if weighted \<noteq> cur then
              (fl_div (fl_add (fl_mul (Fin (old_wt * (1 - alpha))) weighted)
                              (fl_mul (Fin alpha) cur))
                      (Fin (old_wt * (1 - alpha) + alpha)), 1)
            else (weighted, 1))
         else (weighted, old_wt * (1 - alpha)))
      else if cur \<noteq> NaN then (cur, old_wt)
      else (weighted, old_wt))"

fun ewm_from :: "real \<Rightarrow> fl \<times> real \<Rightarrow> series \<Rightarrow> series" where
  "ewm_from alpha st [] = []"
| "ewm_from alpha st (cur # rest) =
     (let st' = ewm_step alpha st cur in fst st' # ewm_from alpha st' rest)"

fun ewm_mean :: "real \<Rightarrow> series \<Rightarrow> series" where
  "ewm_mean alpha [] = []"
| "ewm_mean alpha (v # vs) = v # ewm_from alpha (v, 1) vs"

section \<open>Bars and data frames\<close>

text \<open>
  A bar is one OHLCV record. A data frame maps a column name to the column; the frame of a
  bar series has the six columns \<^verbatim>\<open>datetime, open, high, low, close, volume\<close>, one row
  per bar. Reading a column that the frame does not have raises \<^verbatim>\<open>KeyError\<close>.
\<close>

record bar =
  datetime :: nat
  open_price :: real
  high_price :: real
  low_price :: real
  close_price :: real
  volume :: real

type_synonym dataframe = "string \<Rightarrow> series option"

definition frame_of_bars :: "bar list \<Rightarrow> dataframe" where
  "frame_of_bars bs =
     [''datetime'' \<mapsto> map (\<lambda>b. Fin (real (datetime b))) bs,
      ''open'' \<mapsto> map (\<lambda>b. Fin (open_price b)) bs,
      ''high'' \<mapsto> map (\<lambda>b. Fin (high_price b)) bs,
      ''low'' \<mapsto> map (\<lambda>b. Fin (low_price b)) bs,
      ''close'' \<mapsto> map (\<lambda>b. Fin (close_price b)) bs,
      ''volume'' \<mapsto> map (\<lambda>b. Fin (volume b)) bs]"

text \<open>The cell of a column at a row, when the frame has the column and the row.\<close>

definition cell :: "dataframe \<Rightarrow> string \<Rightarrow> nat \<Rightarrow> fl option" where
  "cell df name i =
     (case df name of
        None \<Rightarrow> None
      | Some xs \<Rightarrow> if i < length xs then Some (xs ! i) else None)"

text \<open>The input columns of a frame, as one value.\<close>

definition bar_columns :: "dataframe \<Rightarrow> series option list" where
  "bar_columns df =
     [df ''datetime'', df ''open'', df ''high'', df ''low'', df ''close'', df ''volume'']"

datatype py_error =
    KeyError string | ValueError | ZeroDivisionError | OverflowError | NotImplementedError

text \<open>
  A call either returns or raises. The engine updates the frame it is given in place, so a
  call that raises leaves the frame as it was at the raise: both outcomes carry the state.
\<close>

datatype 'a outcome = Returned 'a | Raised py_error 'a

fun state_of :: "'a outcome \<Rightarrow> 'a" where
  "state_of (Returned s) = s"
| "state_of (Raised e s) = s"

fun and_then :: "'a outcome \<Rightarrow> ('a \<Rightarrow> 'a outcome) \<Rightarrow> 'a outcome" where
  "and_then (Returned s) f = f s"
| "and_then (Raised e s) f = Raised e s"

subsection \<open>Column names\<close>

text \<open>The decimal text of an integer, as \<^verbatim>\<open>f'ma{period}'\<close> formats it.\<close>

definition digit_char :: "nat \<Rightarrow> char" where
  "digit_char d = ''0123456789'' ! d"

fun string_of_nat :: "nat \<Rightarrow> string" where
  "string_of_nat n =
     (if n < 10 then [digit_char n]
      else string_of_nat (n div 10) @ [digit_char (n mod 10)])"

declare string_of_nat.simps [simp del]

definition string_of_int :: "int \<Rightarrow> string" where
  "string_of_int k =
     (if k < 0 then CHR ''-'' # string_of_nat (nat (- k)) else string_of_nat (nat k))"

definition ma_name :: "int \<Rightarrow> string" where
  "ma_name period = ''ma'' @ string_of_int period"

definition ema_name :: "int \<Rightarrow> string" where
  "ema_name period = ''ema'' @ string_of_int period"

definition rsi_name :: "int \<Rightarrow> string" where
  "rsi_name period = ''rsi'' @ string_of_int period"

definition atr_name :: "int \<Rightarrow> string" where
  "atr_name period = ''atr'' @ string_of_int period"

section \<open>The indicator engine\<close>

text \<open>
  \<^verbatim>\<open>IndicatorEngine\<close> of \<^verbatim>\<open>strategy/data_analysis/indicators.py\<close>, one function per
  static method. A negative rolling window, an exponential span below one and a smoothing
  factor outside \<open>(0, 1]\<close> are refused by the library with \<^verbatim>\<open>ValueError\<close>.
\<close>

fun add_ma :: "dataframe \<Rightarrow> int list \<Rightarrow> dataframe outcome" where
  "add_ma df [] = Returned df"
| "add_ma df (period # periods) =
     (case df ''close'' of
        None \<Rightarrow> Raised (KeyError ''close'') df
      | Some c \<Rightarrow>
          if period < 0 then Raised ValueError df
          else add_ma (df(ma_name period \<mapsto> rolling_mean (nat period) c)) periods)"

definition span_alpha :: "int \<Rightarrow> real" where
  "span_alpha n = 2 / (real_of_int n + 1)"

fun add_ema :: "dataframe \<Rightarrow> int list \<Rightarrow> dataframe outcome" where
  "add_ema df [] = Returned df"
| "add_ema df (period # periods) =
     (case df ''close'' of
        None \<Rightarrow> Raised (KeyError ''close'') df
      | Some c \<Rightarrow>
          if period < 1 then Raised ValueError df
          else add_ema (df(ema_name period \<mapsto> ewm_mean (span_alpha period) c)) periods)"

definition add_macd :: "dataframe \<Rightarrow> int \<Rightarrow> int \<Rightarrow> int \<Rightarrow> dataframe outcome" where
  "add_macd df fast slow signal =
     (case df ''close'' of
        None \<Rightarrow> Raised (KeyError ''close'') df
      | Some c \<Rightarrow>
          if fast < 1 then Raised ValueError df
          else if slow < 1 then Raised ValueError df
          else
            let ema_fast = ewm_mean (span_alpha fast) c;
                ema_slow = ewm_mean (span_alpha slow) c;
                dif = series_sub ema_fast ema_slow;
                df1 = df(''macd_dif'' \<mapsto> dif)
            in if signal < 1 then Raised ValueError df1
               else
                 let dea = ewm_mean (span_alpha signal) dif;
                     df2 = df1(''macd_dea'' \<mapsto> dea)
                 in Returned
                      (df2(''macd_hist'' \<mapsto> map (fl_mul (Fin 2)) (series_sub dif dea))))"

definition add_kdj :: "dataframe \<Rightarrow> int \<Rightarrow> int \<Rightarrow> int \<Rightarrow> dataframe outcome" where
  "add_kdj df n m1 m2 =
     (case df ''low'' of
        None \<Rightarrow> Raised (KeyError ''low'') df
      | Some lo \<Rightarrow>
          if n < 0 then Raised ValueError df
          else
            (case df ''high'' of
               None \<Rightarrow> Raised (KeyError ''high'') df
             | Some hi \<Rightarrow>
                 (case df ''close'' of
                    None \<Rightarrow> Raised (KeyError ''close'') df
                  | Some c \<Rightarrow>
                      let low_list = rolling_min (nat n) lo;
                          high_list = rolling_max (nat n) hi;
                          rsv = map (\<lambda>x. fl_mul x (Fin 100))
                                  (series_div (series_sub c low_list)
                                     (series_sub high_list low_list))
                      in if m1 = 0 then Raised ZeroDivisionError df
                         else if m1 < 0 then Raised ValueError df
                         else
                           let k = ewm_mean (1 / real_of_int m1) rsv;
                               df1 = df(''kdj_k'' \<mapsto> k)
                           in if m2 = 0 then Raised ZeroDivisionError df1
                              else if m2 < 0 then Raised ValueError df1
                              else
                                let d = ewm_mean (1 / real_of_int m2) k;
                                    df2 = df1(''kdj_d'' \<mapsto> d)
                                in Returned
                                     (df2(''kdj_j'' \<mapsto>
                                        series_sub (map (fl_mul (Fin 3)) k)
                                          (map (fl_mul (Fin 2)) d))))))"

text \<open>
  The two averaged series of the RSI. The first difference of a close column has no value
  in its first row; \<^verbatim>\<open>where\<close> puts 0 there, as in every row that is not a gain (not a
  loss).
\<close>

definition rsi_gain :: "series \<Rightarrow> series" where
  "rsi_gain c =
     (let delta = diff c in where_series delta (map (\<lambda>x. fl_gt x (Fin 0)) delta) (Fin 0))"

definition rsi_loss :: "series \<Rightarrow> series" where
  "rsi_loss c =
     (let delta = diff c
      in series_neg (where_series delta (map (\<lambda>x. fl_lt x (Fin 0)) delta) (Fin 0)))"

definition rsi_of_rs :: "fl \<Rightarrow> fl" where
  "rsi_of_rs rs = fl_sub (Fin 100) (fl_div (Fin 100) (fl_add (Fin 1) rs))"

definition rsi_series :: "nat \<Rightarrow> series \<Rightarrow> series" where
  "rsi_series L c =
     (let gain = rolling_mean L (rsi_gain c);
          loss = rolling_mean L (rsi_loss c);
          rs = series_div gain loss
      in map rsi_of_rs rs)"

fun add_rsi :: "dataframe \<Rightarrow> int list \<Rightarrow> dataframe outcome" where
  "add_rsi df [] = Returned df"
| "add_rsi df (period # periods) =
     (case df ''close'' of
        None \<Rightarrow> Raised (KeyError ''close'') df
      | Some c \<Rightarrow>
          if period < 0 then Raised ValueError df
          else add_rsi (df(rsi_name period \<mapsto> rsi_series (nat period) c)) periods)"

definition add_boll :: "dataframe \<Rightarrow> int \<Rightarrow> int \<Rightarrow> dataframe outcome" where
  "add_boll df period std =
     (case df ''close'' of
        None \<Rightarrow> Raised (KeyError ''close'') df
      | Some c \<Rightarrow>
          if period < 0 then Raised ValueError df
          else
            let mid = rolling_mean (nat period) c;
                df1 = df(''boll_mid'' \<mapsto> mid);
                sd = rolling_std (nat period) c;
                df2 = df1(''boll_std'' \<mapsto> sd);
                df3 = df2(''boll_up'' \<mapsto>
                        series_add mid (map (fl_mul (Fin (real_of_int std))) sd))
            in Returned
                 (df3(''boll_down'' \<mapsto>
                    series_sub mid (map (fl_mul (Fin (real_of_int std))) sd))))"

definition true_range :: "series \<Rightarrow> series \<Rightarrow> series \<Rightarrow> series" where
  "true_range hi lo c =
     (let high_low = series_sub hi lo;
          high_close = np_abs (series_sub hi (shift c));
          low_close = np_abs (series_sub lo (shift c))
      in row_max high_low high_close low_close)"

definition add_atr :: "dataframe \<Rightarrow> int \<Rightarrow> dataframe outcome" where
  "add_atr df period =
     (case df ''high'' of
        None \<Rightarrow> Raised (KeyError ''high'') df
      | Some hi \<Rightarrow>
          (case df ''low'' of
             None \<Rightarrow> Raised (KeyError ''low'') df
           | Some lo \<Rightarrow>
               (case df ''close'' of
                  None \<Rightarrow> Raised (KeyError ''close'') df
                | Some c \<Rightarrow>
                    if period < 0 then Raised ValueError df
                    else Returned
                           (df(atr_name period \<mapsto>
                              rolling_mean (nat period) (true_range hi lo c))))))"

text \<open>
  \<^verbatim>\<open>df.loc[mask, 'cross_signal'] = v\<close>: the rows of the mask get \<open>v\<close>. The signal column
  is first set to 0 in every row, then to 1 where the golden-cross mask holds, then to -1
  where the death-cross mask holds.
\<close>

definition set_where :: "bool list \<Rightarrow> fl \<Rightarrow> series \<Rightarrow> series" where
  "set_where sel v xs = map2 (\<lambda>c x. if c then v else x) sel xs"

definition golden_mask :: "series \<Rightarrow> bool list" where
  "golden_mask d = map2 (\<lambda>x p. fl_gt x (Fin 0) \<and> fl_le p (Fin 0)) d (shift d)"

definition death_mask :: "series \<Rightarrow> bool list" where
  "death_mask d = map2 (\<lambda>x p. fl_lt x (Fin 0) \<and> fl_ge p (Fin 0)) d (shift d)"

definition cross_signal :: "series \<Rightarrow> series" where
  "cross_signal d =
     set_where (death_mask d) (Fin (- 1))
       (set_where (golden_mask d) (Fin 1) (replicate (length d) (Fin 0)))"

definition detect_ma_cross :: "dataframe \<Rightarrow> int \<Rightarrow> int \<Rightarrow> dataframe outcome" where
  "detect_ma_cross df fast slow =
     (case df (ma_name fast) of
        None \<Rightarrow> Raised (KeyError (ma_name fast)) df
      | Some a \<Rightarrow>
          (case df (ma_name slow) of
             None \<Rightarrow> Raised (KeyError (ma_name slow)) df
           | Some b \<Rightarrow>
               let d = series_sub a b;
                   df1 = df(''ma_diff'' \<mapsto> d)
               in Returned (df1(''cross_signal'' \<mapsto> cross_signal d))))"

definition calculate_all :: "dataframe \<Rightarrow> dataframe outcome" where
  "calculate_all df =
     and_then (and_then (and_then (and_then (and_then (and_then
       (add_ma df [5, 10, 20, 60])
       (\<lambda>d. add_ema d [12, 26]))
       (\<lambda>d. add_macd d 12 26 9))
       (\<lambda>d. add_kdj d 9 3 3))
       (\<lambda>d. add_rsi d [6, 12, 24]))
       (\<lambda>d. add_boll d 20 2))
       (\<lambda>d. add_atr d 14)"

section \<open>The strategy template and its risk management\<close>

text \<open>
  \<^verbatim>\<open>BaseStrategy\<close> of \<^verbatim>\<open>strategy/vnpy_strategies/base_template.py\<close>. The object's
  attributes are the fields of a record; \<open>pos\<close> is the position that the host keeps (positive
  when long, negative when short, 0 when flat). Prices and parameters are Python floats; a
  field of type \<open>real\<close> holds a finite double. \<open>lowest_price\<close> starts as infinity in the
  class, so it is a float cell. What a callback hands to the host (a log line, an order
  request) is appended to \<open>emitted\<close>.
\<close>

subsection \<open>Double-precision arithmetic of the interpreter\<close>

text \<open>
  Python's float is the IEEE 754 binary64 format. Each of \<^verbatim>\<open>-\<close>, \<^verbatim>\<open>*\<close> and \<^verbatim>\<open>/\<close>
  returns the exact result rounded to the nearest double, ties to the even mantissa; a
  result that rounds to magnitude \<open>2^1024\<close> or more is an infinity. A double in the binade
  \<open>2^e \<le> |x| < 2^(e+1)\<close> is an integer multiple of \<open>2^(e-52)\<close>; below \<open>2^-1022\<close> the
  spacing stays \<open>2^-1074\<close> (subnormals). The sign of a zero is not represented: the template
  never observes it (a zero divisor raises whatever its sign).
\<close>

fun binade_search :: "real \<Rightarrow> int \<Rightarrow> nat \<Rightarrow> int" where
  "binade_search a k 0 = k"
| "binade_search a k (Suc f) = (if 2 powi (k + 1) \<le> a then binade_search a (k + 1) f else k)"

definition binade :: "real \<Rightarrow> int" where
  "binade a = binade_search a (- 1022) 2046"

definition round_even :: "real \<Rightarrow> int" where
  "round_even r =
     (let f = \<lfloor>r\<rfloor>; d = r - of_int f
      in if d < 1 / 2 then f else if 1 / 2 < d then f + 1 else if even f then f else f + 1)"

definition overflow_threshold :: real where
  "overflow_threshold = 2 ^ 1024"

definition round_double :: "real \<Rightarrow> fl" where
  "round_double x =
     (let q = binade \<bar>x\<bar> - 52;
          y = of_int (round_even (x / 2 powi q)) * 2 powi q
      in if overflow_threshold \<le> \<bar>y\<bar> then (if 0 < x then PInf else NInf) else Fin y)"

fun fl_round :: "fl \<Rightarrow> fl" where
  "fl_round (Fin x) = round_double x"
| "fl_round PInf = PInf"
| "fl_round NInf = NInf"
| "fl_round NaN = NaN"

definition pyf_sub :: "fl \<Rightarrow> fl \<Rightarrow> fl" where
  "pyf_sub x y = fl_round (fl_sub x y)"

definition pyf_mul :: "fl \<Rightarrow> fl \<Rightarrow> fl" where
  "pyf_mul x y = fl_round (fl_mul x y)"

text \<open>The quotient \<^verbatim>\<open>x / y\<close> for a divisor that is not zero (a zero divisor raises).\<close>

definition pyf_quot :: "fl \<Rightarrow> fl \<Rightarrow> fl" where
  "pyf_quot x y = fl_round (fl_div x y)"

text \<open>
  \<^verbatim>\<open>(x - y) / base * 100\<close> on floats, the form of the loss and drawdown percentages.
\<close>

definition pct_of :: "real \<Rightarrow> real \<Rightarrow> real \<Rightarrow> fl" where
  "pct_of x y base = pyf_mul (pyf_quot (pyf_sub (Fin x) (Fin y)) (Fin base)) (Fin 100)"

subsection \<open>The strategy object\<close>

datatype direction = LONG | SHORT

datatype offset = NONE | OPEN | CLOSE | CLOSETODAY | CLOSEYESTERDAY

record trade =
  direction :: direction
  offset :: offset
  price :: real
  trade_volume :: real

record tick =
  last_price :: real
  tick_high_price :: real
  tick_low_price :: real

text \<open>
  The log lines of the template, by the message they format: the stop-loss line carries the
  loss percentage, the trailing take-profit line the drawdown percentage, the fill lines the
  trade (and the profit of a closing fill).
\<close>

datatype log_line =
    StopLossTriggered fl
  | TrailingTakeProfitTriggered fl
  | OpenFilled direction real real
  | CloseFilled direction real real fl

datatype emission =
    WriteLog log_line
  | Sell real real
  | Cover real real

record strategy =
  risk_percent :: real
  max_position :: int
  stop_loss_pct :: real
  take_profit_pct :: real
  current_price :: real
  entry_price :: real
  highest_price :: real
  lowest_price :: fl
  pos :: real
  emitted :: "emission list"

definition emit :: "emission list \<Rightarrow> strategy \<Rightarrow> strategy" where
  "emit es s = s\<lparr>emitted := emitted s @ es\<rparr>"

text \<open>Python's \<^verbatim>\<open>min(a, b)\<close>: \<open>b\<close> when \<open>b < a\<close>, else \<open>a\<close>.\<close>

definition py_min :: "fl \<Rightarrow> fl \<Rightarrow> fl" where
  "py_min a b = (if fl_lt b a then b else a)"

definition update_extremes :: "strategy \<Rightarrow> real \<Rightarrow> real \<Rightarrow> strategy" where
  "update_extremes s hi lo =
     (if 0 < pos s then s\<lparr>highest_price := max (highest_price s) hi\<rparr>
      else if pos s < 0 then s\<lparr>lowest_price := py_min (lowest_price s) (Fin lo)\<rparr>
      else s)"

definition on_tick :: "strategy \<Rightarrow> tick \<Rightarrow> strategy outcome" where
  "on_tick s t =
     Returned (update_extremes (s\<lparr>current_price := last_price t\<rparr>)
                 (tick_high_price t) (tick_low_price t))"

definition risk_management :: "strategy \<Rightarrow> bar \<Rightarrow> strategy outcome" where
  "risk_management s b =
     (if pos s = 0 then Returned s
      else if 0 < pos s then
        (if entry_price s = 0 then Raised ZeroDivisionError s
         else
           let loss_pct = pct_of (entry_price s) (close_price b) (entry_price s)
           in if fl_ge loss_pct (Fin (stop_loss_pct s)) then
                Returned (emit [WriteLog (StopLossTriggered loss_pct),
                                Sell (close_price b) \<bar>pos s\<bar>] s)
              else if highest_price s = 0 then Raised ZeroDivisionError s
              else
                let drawdown_pct = pct_of (highest_price s) (close_price b) (highest_price s)
                in if fl_ge drawdown_pct (Fin (take_profit_pct s)) then
                     Returned (emit [WriteLog (TrailingTakeProfitTriggered drawdown_pct),
                                     Sell (close_price b) \<bar>pos s\<bar>] s)
                   else Returned s)
      else
        (if entry_price s = 0 then Raised ZeroDivisionError s
         else
           let loss_pct = pct_of (close_price b) (entry_price s) (entry_price s)
           in if fl_ge loss_pct (Fin (stop_loss_pct s)) then
                Returned (emit [WriteLog (StopLossTriggered loss_pct),
                                Cover (close_price b) \<bar>pos s\<bar>] s)
              else Returned s))"

text \<open>
  \<^verbatim>\<open>trading_logic\<close> is the hook that a subclass overrides; the template's own raises
  \<^verbatim>\<open>NotImplementedError\<close>. \<^verbatim>\<open>on_bar\<close> takes the hook of the object it runs on.
\<close>

type_synonym hook = "strategy \<Rightarrow> bar \<Rightarrow> strategy outcome"

definition trading_logic :: hook where
  "trading_logic s b = Raised NotImplementedError s"

definition on_bar :: "hook \<Rightarrow> strategy \<Rightarrow> bar \<Rightarrow> strategy outcome" where
  "on_bar hook s b =
     (let s1 = update_extremes (s\<lparr>current_price := close_price b\<rparr>)
                 (high_price b) (low_price b)
      in and_then (risk_management s1 b) (\<lambda>s2. hook s2 b))"

definition on_trade :: "strategy \<Rightarrow> trade \<Rightarrow> strategy outcome" where
  "on_trade s t =
     (if offset t = OPEN then
        Returned (emit [WriteLog (OpenFilled (direction t) (trade_volume t) (price t))]
                    (s\<lparr>entry_price := price t, highest_price := price t,
                       lowest_price := Fin (price t)\<rparr>))
      else
        let pnl = (if direction t = SHORT
                   then pyf_mul (pyf_sub (Fin (price t)) (Fin (entry_price s)))
                          (Fin (trade_volume t))
                   else pyf_mul (pyf_sub (Fin (entry_price s)) (Fin (price t)))
                          (Fin (trade_volume t)))
        in Returned ((emit [WriteLog (CloseFilled (direction t) (trade_volume t) (price t) pnl)] s)
                       \<lparr>entry_price := 0\<rparr>))"

text \<open>Python's \<^verbatim>\<open>int(x)\<close> on a float: truncation toward zero.\<close>

definition py_int :: "real \<Rightarrow> int" where
  "py_int x = (if 0 \<le> x then \<lfloor>x\<rfloor> else \<lceil>x\<rceil>)"

text \<open>
  \<^verbatim>\<open>int(x)\<close> on a float raises \<^verbatim>\<open>OverflowError\<close> for an infinity and
  \<^verbatim>\<open>ValueError\<close> for NaN.
\<close>

fun int_of_float :: "fl \<Rightarrow> py_error + int" where
  "int_of_float (Fin x) = Inr (py_int x)"
| "int_of_float PInf = Inl OverflowError"
| "int_of_float NInf = Inl OverflowError"
| "int_of_float NaN = Inl ValueError"

text \<open>
  \<^verbatim>\<open>calculate_position\<close> returns its value (or raises) together with the object's state,
  which it does not assign to. Its three intermediate floats are named as in the source.
\<close>

definition risk_amount :: "strategy \<Rightarrow> real \<Rightarrow> fl" where
  "risk_amount s capital = pyf_quot (pyf_mul (Fin capital) (Fin (risk_percent s))) (Fin 100)"

definition stop_loss_amount :: "strategy \<Rightarrow> real \<Rightarrow> fl" where
  "stop_loss_amount s pr = pyf_quot (pyf_mul (Fin pr) (Fin (stop_loss_pct s))) (Fin 100)"

definition sizing_quotient :: "strategy \<Rightarrow> real \<Rightarrow> real \<Rightarrow> fl" where
  "sizing_quotient s capital pr = pyf_quot (risk_amount s capital) (stop_loss_amount s pr)"

definition calculate_position :: "strategy \<Rightarrow> real \<Rightarrow> real \<Rightarrow> (py_error + int) \<times> strategy" where
  "calculate_position s capital pr =
     (if stop_loss_amount s pr = Fin 0 then (Inl ZeroDivisionError, s)
      else
        (case int_of_float (sizing_quotient s capital pr) of
           Inl e \<Rightarrow> (Inl e, s)
         | Inr position \<Rightarrow> (Inr (min position (max_position s)), s)))"

subsection \<open>Runs of market events\<close>

text \<open>
  The states of a strategy object over a sequence of bars and ticks: the state before the
  first event, then the state that each callback leaves (whether it returned or raised).
\<close>

datatype market_event = OnBar bar | OnTick tick

fun after_event :: "hook \<Rightarrow> strategy \<Rightarrow> market_event \<Rightarrow> strategy" where
  "after_event hook s (OnBar b) = state_of (on_bar hook s b)"
| "after_event hook s (OnTick t) = state_of (on_tick s t)"

fun trace :: "hook \<Rightarrow> strategy \<Rightarrow> market_event list \<Rightarrow> strategy list" where
  "trace hook s [] = [s]"
| "trace hook s (e # es) = s # trace hook (after_event hook s e) es"

text \<open>A hook that leaves the position and the two extremes as they are.\<close>

definition keeps_extremes :: "hook \<Rightarrow> bool" where
  "keeps_extremes hook =
     (\<forall>s b. pos (state_of (hook s b)) = pos s
          \<and> highest_price (state_of (hook s b)) = highest_price s
          \<and> lowest_price (state_of (hook s b)) = lowest_price s)"

section \<open>Reference definitions and sample inputs\<close>

text \<open>
  A long position of 100 units opened at 100 whose highest price has reached 120, with the
  template's default parameters; the same position held short; and three bars.
\<close>

definition long_100 :: strategy where
  "long_100 = \<lparr>risk_percent = 2, max_position = 100, stop_loss_pct = 5, take_profit_pct = 10,
      current_price = 110, entry_price = 100, highest_price = 120, lowest_price = Fin 100,
      pos = 100, emitted = []\<rparr>"

definition short_100 :: strategy where
  "short_100 = \<lparr>risk_percent = 2, max_position = 100, stop_loss_pct = 5, take_profit_pct = 10,
      current_price = 95, entry_price = 100, highest_price = 100, lowest_price = Fin 90,
      pos = - 100, emitted = []\<rparr>"

definition bar_94 :: bar where
  "bar_94 = \<lparr>datetime = 1, open_price = 108, high_price = 109, low_price = 93,
      close_price = 94, volume = 500000\<rparr>"

definition bar_107 :: bar where
  "bar_107 = \<lparr>datetime = 2, open_price = 112, high_price = 113, low_price = 106,
      close_price = 107, volume = 500000\<rparr>"

definition open_at_100 :: "direction \<Rightarrow> trade" where
  "open_at_100 d = \<lparr>direction = d, offset = OPEN, price = 100, trade_volume = 100\<rparr>"

text \<open>
  Cross events as the specification defines them, on two aligned series: a golden cross at
  \<open>t\<close> when \<open>A - B\<close> is positive at \<open>t\<close> and not positive at \<open>t - 1\<close>, a death cross
  when it is negative at \<open>t\<close> and not negative at \<open>t - 1\<close>. Row 0 has no previous row.
\<close>

definition golden_cross :: "series \<Rightarrow> series \<Rightarrow> nat \<Rightarrow> bool" where
  "golden_cross A B t =
     (0 < t \<and> fl_gt (fl_sub (A ! t) (B ! t)) (Fin 0)
            \<and> fl_le (fl_sub (A ! (t - 1)) (B ! (t - 1))) (Fin 0))"

definition death_cross :: "series \<Rightarrow> series \<Rightarrow> nat \<Rightarrow> bool" where
  "death_cross A B t =
     (0 < t \<and> fl_lt (fl_sub (A ! t) (B ! t)) (Fin 0)
            \<and> fl_ge (fl_sub (A ! (t - 1)) (B ! (t - 1))) (Fin 0))"

definition cross_frame :: dataframe where
  "cross_frame = [ma_name 5 \<mapsto> [Fin 1, Fin 3, Fin 1], ma_name 10 \<mapsto> [Fin 2, Fin 2, Fin 2]]"

text \<open>
  The price columns of a bar series as lists of reals, and the statistics of the
  specification on them: the last \<open>L\<close> values up to row \<open>i\<close>, their mean (the simple
  moving average), and the two standard deviations, with \<open>n - 1\<close> (sample) and with \<open>n\<close>
  (population) under the sum of squared deviations.
\<close>

definition closes :: "bar list \<Rightarrow> real list" where
  "closes bs = map close_price bs"

definition highs :: "bar list \<Rightarrow> real list" where
  "highs bs = map high_price bs"

definition lows :: "bar list \<Rightarrow> real list" where
  "lows bs = map low_price bs"

definition last_values :: "nat \<Rightarrow> nat \<Rightarrow> real list \<Rightarrow> real list" where
  "last_values L i rs = map ((!) rs) [Suc i - L..<Suc i]"

definition sample_std :: "real list \<Rightarrow> real" where
  "sample_std rs = sqrt (sum_sq_dev rs / (real (length rs) - 1))"

definition population_std :: "real list \<Rightarrow> real" where
  "population_std rs = sqrt (sum_sq_dev rs / real (length rs))"

text \<open>
  The true range of the specification: the high-low range of the first bar; from the second
  bar on the largest of the high-low range and the distances of the high and of the low
  from the previous close.
\<close>

definition tr_at :: "bar list \<Rightarrow> nat \<Rightarrow> real" where
  "tr_at bs t =
     (if t = 0 then high_price (bs ! 0) - low_price (bs ! 0)
      else max (high_price (bs ! t) - low_price (bs ! t))
             (max \<bar>high_price (bs ! t) - close_price (bs ! (t - 1))\<bar>
                  \<bar>low_price (bs ! t) - close_price (bs ! (t - 1))\<bar>))"

definition true_ranges :: "bar list \<Rightarrow> real list" where
  "true_ranges bs = map (tr_at bs) [0..<length bs]"

text \<open>Sample bars: a bar around a close, and a series closing at 0, 1, 2.\<close>

definition day_bar :: "nat \<Rightarrow> real \<Rightarrow> bar" where
  "day_bar t c = \<lparr>datetime = t, open_price = c, high_price = c + 1, low_price = c - 1,
      close_price = c, volume = 1000\<rparr>"

definition bars_012 :: "bar list" where
  "bars_012 = [day_bar 1 0, day_bar 2 1, day_bar 3 2]"

text \<open>
  The gains and losses of the specification's RSI on a close series: the rise (the fall) of
  the close over the previous one, 0 when there is none and in row 0; their averages over
  the last \<open>L\<close> rows; and the value of the formula \<open>100 - 100 / (1 + rs)\<close> on floats, where
  a zero average loss under a positive average gain makes \<open>rs\<close> infinite and the value 100,
  and zero under zero makes it NaN.
\<close>

definition gain_at :: "real list \<Rightarrow> nat \<Rightarrow> real" where
  "gain_at cs t = (if t = 0 then 0 else max (cs ! t - cs ! (t - 1)) 0)"

definition loss_at :: "real list \<Rightarrow> nat \<Rightarrow> real" where
  "loss_at cs t = (if t = 0 then 0 else max (cs ! (t - 1) - cs ! t) 0)"

definition gains :: "real list \<Rightarrow> real list" where
  "gains cs = map (gain_at cs) [0..<length cs]"

definition losses :: "real list \<Rightarrow> real list" where
  "losses cs = map (loss_at cs) [0..<length cs]"

definition avg_gain :: "nat \<Rightarrow> nat \<Rightarrow> real list \<Rightarrow> real" where
  "avg_gain L i cs = mean (last_values L i (gains cs))"

definition avg_loss :: "nat \<Rightarrow> nat \<Rightarrow> real list \<Rightarrow> real" where
  "avg_loss L i cs = mean (last_values L i (losses cs))"

definition rsi_at :: "nat \<Rightarrow> nat \<Rightarrow> real list \<Rightarrow> fl" where
  "rsi_at L i cs =
     (if L = 0 \<or> i + 1 < L then NaN
      else if avg_loss L i cs = 0 then (if avg_gain L i cs = 0 then NaN else Fin 100)
      else Fin (100 - 100 / (1 + avg_gain L i cs / avg_loss L i cs)))"

text \<open>A series of three bars that all close at 10.\<close>

definition bars_flat :: "bar list" where
  "bars_flat = [day_bar 1 10, day_bar 2 10, day_bar 3 10]"

text \<open>
  Further states of a long position: one with a stop at 29 percent whose highest price is its
  entry 100; one entered at 64 with the trailing take-profit at 29 percent and the highest
  price 100; and the position of 100 after a fill closed 40 of it, which resets
  \<open>entry_price\<close> to 0 while 60 units stay open. A bar closing at 71, and a capital of
  \<open>2^1023\<close>, a finite double.
\<close>

definition long_29 :: strategy where
  "long_29 = \<lparr>risk_percent = 2, max_position = 100, stop_loss_pct = 29, take_profit_pct = 10,
      current_price = 100, entry_price = 100, highest_price = 100, lowest_price = Fin 100,
      pos = 100, emitted = []\<rparr>"

definition long_tp_29 :: strategy where
  "long_tp_29 = \<lparr>risk_percent = 2, max_position = 100, stop_loss_pct = 5, take_profit_pct = 29,
      current_price = 100, entry_price = 64, highest_price = 100, lowest_price = Fin 64,
      pos = 100, emitted = []\<rparr>"

definition long_partly_closed :: strategy where
  "long_partly_closed = long_100\<lparr>entry_price := 0, pos := 60\<rparr>"

definition bar_71 :: bar where
  "bar_71 = \<lparr>datetime = 3, open_price = 72, high_price = 72, low_price = 70,
      close_price = 71, volume = 500000\<rparr>"

definition huge_capital :: real where
  "huge_capital = 2 ^ 1023"

text \<open>A float that is not negative: a real from 0 on, or the positive infinity.\<close>

definition fl_nonneg :: "fl \<Rightarrow> bool" where
  "fl_nonneg v = (case v of Fin r \<Rightarrow> 0 \<le> r | PInf \<Rightarrow> True | NInf \<Rightarrow> False | NaN \<Rightarrow> False)"

section \<open>Properties\<close>

subsection \<open>Rounding to the nearest double\<close>

text \<open>
  The binade search finds the exponent of a normal value, stays at \<open>-1022\<close> below the
  normal range and ends at 1024 from \<open>2^1024\<close> on. With the exponent known, rounding is
  one rounding of the scaled value to an integer, which evaluates on numerals.
\<close>

lemma binade_search_eq:
  "k \<le> e \<Longrightarrow> nat (e - k) \<le> f \<Longrightarrow> 2 powi e \<le> a \<Longrightarrow> a < 2 powi (e + 1)
     \<Longrightarrow> binade_search a k f = e"
proof (induction f arbitrary: k)
  case 0
  then show ?case by simp
next
  case (Suc f)
  show ?case
  proof (cases "k = e")
    case True
    with Suc.prems show ?thesis by simp
  next
    case False
    with Suc.prems have lt: "k + 1 \<le> e" by simp
    have "(2::real) powi (k + 1) \<le> 2 powi e"
      using lt by (intro power_int_increasing) simp_all
    with Suc.prems(3) have t: "2 powi (k + 1) \<le> a" by linarith
    have "binade_search a (k + 1) f = e"
      using lt Suc.prems by (intro Suc.IH) simp_all
    with t show ?thesis by simp
  qed
qed

lemma binade_normal:
  assumes "2 powi e \<le> a" and "a < 2 powi (e + 1)" and "- 1022 \<le> e" and "e \<le> 1023"
  shows "binade a = e"
  unfolding binade_def
  using assms by (intro binade_search_eq) simp_all

lemma binade_search_stop: "\<not> 2 powi (k + 1) \<le> a \<Longrightarrow> binade_search a k f = k"
  by (cases f) simp_all

lemma binade_low: "a < 2 powi (- 1021) \<Longrightarrow> binade a = - 1022"
  unfolding binade_def by (rule binade_search_stop) simp

lemma binade_search_all:
  "(\<And>j. k < j \<Longrightarrow> j \<le> k + int f \<Longrightarrow> 2 powi j \<le> a) \<Longrightarrow> binade_search a k f = k + int f"
proof (induction f arbitrary: k)
  case 0
  then show ?case by simp
next
  case (Suc f)
  have t: "2 powi (k + 1) \<le> a"
    by (rule Suc.prems) simp_all
  have "binade_search a (k + 1) f = k + 1 + int f"
    by (rule Suc.IH, rule Suc.prems) simp_all
  with t show ?case by simp
qed

lemma binade_high: "2 powi 1024 \<le> a \<Longrightarrow> binade a = 1024"
proof -
  assume a: "2 powi 1024 \<le> a"
  have "binade_search a (- 1022) 2046 = - 1022 + int 2046"
  proof (rule binade_search_all)
    fix j :: int assume "- 1022 < j" "j \<le> - 1022 + int 2046"
    then have "j \<le> 1024" by simp
    then have "(2::real) powi j \<le> 2 powi 1024"
      by (intro power_int_increasing) simp_all
    with a show "2 powi j \<le> a" by linarith
  qed
  then show ?thesis by (simp add: binade_def)
qed

lemma round_double_normal:
  assumes "2 powi e \<le> \<bar>x\<bar>" and "\<bar>x\<bar> < 2 powi (e + 1)" and "- 1022 \<le> e" and "e \<le> 1023"
  shows "round_double x =
           (let y = of_int (round_even (x / 2 powi (e - 52))) * 2 powi (e - 52)
            in if overflow_threshold \<le> \<bar>y\<bar> then (if 0 < x then PInf else NInf) else Fin y)"
  by (simp add: round_double_def binade_normal [OF assms] Let_def)

lemma round_even_zero: "round_even 0 = 0"
  by (simp add: round_even_def)

lemma round_double_zero: "round_double 0 = Fin 0"
  by (simp add: round_double_def binade_low round_even_zero overflow_threshold_def)

lemma round_even_nonneg: "0 \<le> r \<Longrightarrow> 0 \<le> round_even r"
  by (simp add: round_even_def Let_def)

lemma round_even_ge: "real_of_int n \<le> r \<Longrightarrow> n \<le> round_even r"
proof -
  assume "real_of_int n \<le> r"
  then have "n \<le> \<lfloor>r\<rfloor>" by (simp add: le_floor_iff)
  moreover have "\<lfloor>r\<rfloor> \<le> round_even r" by (simp add: round_even_def Let_def)
  ultimately show ?thesis by linarith
qed

lemma round_double_nonneg:
  assumes "0 \<le> x"
  shows "fl_nonneg (round_double x)"
proof (cases "x = 0")
  case True
  then show ?thesis by (simp add: round_double_zero fl_nonneg_def)
next
  case False
  with assms have x: "0 < x" by simp
  have p: "(0::real) < 2 powi (binade \<bar>x\<bar> - 52)" by simp
  have "0 \<le> x / 2 powi (binade \<bar>x\<bar> - 52)"
    using x p by (simp add: divide_nonneg_pos)
  then have "0 \<le> round_even (x / 2 powi (binade \<bar>x\<bar> - 52))"
    by (rule round_even_nonneg)
  then have "0 \<le> real_of_int (round_even (x / 2 powi (binade \<bar>x\<bar> - 52))) * 2 powi (binade \<bar>x\<bar> - 52)"
    using p by simp
  with x show ?thesis
    by (simp add: round_double_def Let_def fl_nonneg_def)
qed

lemma round_double_overflow:
  assumes "overflow_threshold \<le> x"
  shows "round_double x = PInf"
proof -
  have x: "2 powi 1024 \<le> \<bar>x\<bar>" "0 < x"
    using assms by (simp_all add: overflow_threshold_def)
  have b: "binade \<bar>x\<bar> = 1024" using x(1) by (rule binade_high)
  have "real_of_int (2 ^ 52) \<le> x / 2 powi 972"
    using assms by (simp add: overflow_threshold_def field_simps)
  then have "2 ^ 52 \<le> round_even (x / 2 powi 972)" by (rule round_even_ge)
  then have "real_of_int (2 ^ 52) \<le> real_of_int (round_even (x / 2 powi 972))"
    by linarith
  then have "real_of_int (2 ^ 52) * 2 powi 972 \<le> real_of_int (round_even (x / 2 powi 972)) * 2 powi 972"
    by (intro mult_right_mono) simp_all
  then have "overflow_threshold \<le> \<bar>real_of_int (round_even (x / 2 powi 972)) * 2 powi 972\<bar>"
    by (simp add: overflow_threshold_def)
  with x(2) b show ?thesis
    by (simp add: round_double_def Let_def)
qed

lemma fl_round_nonneg: "fl_nonneg x \<Longrightarrow> fl_nonneg (fl_round x)"
  by (cases x) (simp_all add: fl_nonneg_def round_double_nonneg [unfolded fl_nonneg_def])

lemma pyf_mul_nonneg: "0 \<le> a \<Longrightarrow> 0 \<le> b \<Longrightarrow> fl_nonneg (pyf_mul (Fin a) (Fin b))"
  by (simp add: pyf_mul_def round_double_nonneg)

lemma pyf_quot_100_nonneg: "fl_nonneg x \<Longrightarrow> fl_nonneg (pyf_quot x (Fin 100))"
  by (cases x) (simp_all add: pyf_quot_def fl_nonneg_def round_double_nonneg [unfolded fl_nonneg_def])

lemma pyf_quot_nonneg:
  assumes "fl_nonneg x" and "fl_nonneg y" and "y \<noteq> Fin 0"
  shows "pyf_quot x y = NaN \<or> fl_nonneg (pyf_quot x y)"
proof (cases x)
  case (Fin a)
  note xa = this
  show ?thesis
  proof (cases y)
    case (Fin b)
    with assms xa have "0 \<le> a / b" by (simp add: fl_nonneg_def)
    with Fin xa assms(3) show ?thesis
      by (simp add: pyf_quot_def round_double_nonneg)
  next
    case PInf
    with xa show ?thesis by (simp add: pyf_quot_def round_double_zero fl_nonneg_def)
  next
    case NInf
    with assms show ?thesis by (simp add: fl_nonneg_def)
  next
    case NaN
    with assms show ?thesis by (simp add: fl_nonneg_def)
  qed
next
  case PInf
  with assms show ?thesis
    by (cases y) (simp_all add: pyf_quot_def fl_nonneg_def)
next
  case NInf
  with assms show ?thesis by (simp add: fl_nonneg_def)
next
  case NaN
  with assms show ?thesis by (simp add: fl_nonneg_def)
qed

subsection \<open>Risk management of a long position\<close>

text \<open>The percentages of the sample states and bars, as the doubles that the code computes.\<close>

lemmas double_eval = pct_of_def pyf_sub_def pyf_mul_def pyf_quot_def fl_sub_def
  round_even_def overflow_threshold_def

lemma pct_100_71: "pct_of 100 71 100 = Fin (8162774324609023 / 2 ^ 48)"
  by (simp add: double_eval round_double_normal [of 4] round_double_normal [of "- 2"])

lemma pct_100_94: "pct_of 100 94 100 = Fin 6"
  by (simp add: double_eval round_double_normal [of 2] round_double_normal [of "- 5"])

lemma pct_100_107: "pct_of 100 107 100 = Fin (- (7881299347898369 / 2 ^ 50))"
  by (simp add: double_eval round_double_normal [of 2] round_double_normal [of "- 4"])

lemma pct_120_107: "pct_of 120 107 120 = Fin (6098624495397547 / 2 ^ 49)"
  by (simp add: double_eval round_double_normal [of 3] round_double_normal [of "- 4"])

lemma pct_64_71: "pct_of 64 71 64 = Fin (- (175 / 16))"
  by (simp add: double_eval round_double_normal [of 2] round_double_normal [of "- 4"]
      round_double_normal [of 3])

lemma pct_120_94: "pct_of 120 94 120 = Fin (6098624495397547 / 2 ^ 48)"
  by (simp add: double_eval round_double_normal [of 4] round_double_normal [of "- 3"])


lemma update_extremes_long:
  "0 < pos s \<Longrightarrow>
   update_extremes (s\<lparr>current_price := c\<rparr>) hi lo =
     s\<lparr>current_price := c, highest_price := max (highest_price s) hi\<rparr>"
  by (simp add: update_extremes_def)

text \<open>
  C4, as the code has it. While a long position is open (\<open>0 < pos\<close>): with an entry price
  of 0 the risk management raises \<^verbatim>\<open>ZeroDivisionError\<close> and emits nothing. With any
  other entry price, on a bar where the loss percentage that the code computes in double
  arithmetic, \<open>(entry_price - close) / entry_price * 100\<close> with each of the three operations
  rounded, is at or above \<open>stop_loss_pct\<close>, it logs the stop-loss line and requests the
  sale of the whole position at the close, and nothing else: no trailing take-profit is
  looked at on that bar, whatever the drawdown. \<^verbatim>\<open>on_bar\<close> hands exactly this state to
  the trading hook.
\<close>

theorem stop_loss_priority:
  assumes "0 < pos s"
  shows "(entry_price s = 0 \<longrightarrow> risk_management s b = Raised ZeroDivisionError s)
       \<and> (entry_price s \<noteq> 0
            \<and> fl_ge (pct_of (entry_price s) (close_price b) (entry_price s))
                 (Fin (stop_loss_pct s)) \<longrightarrow>
            risk_management s b =
              Returned (emit [WriteLog (StopLossTriggered
                                (pct_of (entry_price s) (close_price b) (entry_price s))),
                              Sell (close_price b) \<bar>pos s\<bar>] s)
            \<and> on_bar hook s b =
              hook (emit [WriteLog (StopLossTriggered
                            (pct_of (entry_price s) (close_price b) (entry_price s))),
                          Sell (close_price b) \<bar>pos s\<bar>]
                      (s\<lparr>current_price := close_price b,
                         highest_price := max (highest_price s) (high_price b)\<rparr>)) b)"
  using assms
  by (simp add: risk_management_def on_bar_def update_extremes_long Let_def emit_def)

text \<open>
  The position opened at 100 with a 5 percent stop, on a bar closing at 94: the computed
  loss is the double 6.0, the drawdown from the highest price 120 is above the 10 percent
  of the trailing take-profit too, and the only exit is the stop-loss. The partly closed
  position raises.
\<close>

theorem stop_loss_priority_witness:
  "risk_management long_100 bar_94 =
     Returned (long_100\<lparr>emitted := [WriteLog (StopLossTriggered (Fin 6)), Sell 94 100]\<rparr>)
   \<and> fl_ge (pct_of (highest_price long_100) (close_price bar_94) (highest_price long_100))
       (Fin (take_profit_pct long_100))
   \<and> on_bar trading_logic long_100 bar_94 =
     Raised NotImplementedError
       (long_100\<lparr>current_price := 94,
          emitted := [WriteLog (StopLossTriggered (Fin 6)), Sell 94 100]\<rparr>)
   \<and> risk_management long_partly_closed bar_94 = Raised ZeroDivisionError long_partly_closed"
proof -
  have p: "0 < pos long_100" "0 < pos long_partly_closed"
    by (simp_all add: long_100_def long_partly_closed_def)
  have v: "pct_of (entry_price long_100) (close_price bar_94) (entry_price long_100) = Fin 6"
    "pct_of (highest_price long_100) (close_price bar_94) (highest_price long_100)
       = Fin (6098624495397547 / 2 ^ 48)"
    by (simp_all add: long_100_def bar_94_def pct_100_94 pct_120_94)
  show ?thesis
    using stop_loss_priority [OF p(1), of bar_94 trading_logic]
      stop_loss_priority [OF p(2), of bar_94 trading_logic] v
    by (simp add: long_100_def long_partly_closed_def bar_94_def emit_def trading_logic_def
        fl_ge_def)
qed

text \<open>
  On the exact quotient the claim fails: entry 100, close 71 and a stop at 29 percent give
  a loss of exactly 29 percent, but the doubles give \<open>0.29 * 100 = 28.999999999999996\<close>,
  the stop-loss test fails and the exit of that bar is the trailing take-profit.
\<close>

theorem stop_loss_rounding_counterexample:
  "stop_loss_pct long_29 \<le> (entry_price long_29 - close_price bar_71) / entry_price long_29 * 100
   \<and> risk_management long_29 bar_71 =
       Returned (long_29\<lparr>emitted :=
         [WriteLog (TrailingTakeProfitTriggered (Fin (8162774324609023 / 2 ^ 48))),
          Sell 71 100]\<rparr>)"
  by (simp add: risk_management_def long_29_def bar_71_def pct_100_71 fl_ge_def emit_def)

text \<open>
  C3, as the code has it. While a long position is open, \<^verbatim>\<open>on_bar\<close> first raises the
  highest price to the bar's high, \<open>h\<close>. With an entry price of 0, or with \<open>h = 0\<close> once
  the stop-loss test has failed, it raises \<^verbatim>\<open>ZeroDivisionError\<close> and emits nothing.
  Otherwise, when the stop-loss test fails on the computed loss and the drawdown that the
  code computes in double arithmetic, \<open>(h - close) / h * 100\<close> with each operation rounded,
  is at or above \<open>take_profit_pct\<close>, the risk management logs the trailing take-profit line
  and requests the sale of the whole position at the close, before the trading hook runs.
  Nothing is asked of the close relative to the entry price.
\<close>

theorem trailing_take_profit:
  assumes "0 < pos s" and "h = max (highest_price s) (high_price b)"
  shows "(entry_price s = 0 \<longrightarrow>
            on_bar hook s b =
              Raised ZeroDivisionError (s\<lparr>current_price := close_price b, highest_price := h\<rparr>))
       \<and> (entry_price s \<noteq> 0
            \<and> \<not> fl_ge (pct_of (entry_price s) (close_price b) (entry_price s))
                   (Fin (stop_loss_pct s))
            \<and> h = 0 \<longrightarrow>
            on_bar hook s b =
              Raised ZeroDivisionError (s\<lparr>current_price := close_price b, highest_price := h\<rparr>))
       \<and> (entry_price s \<noteq> 0
            \<and> \<not> fl_ge (pct_of (entry_price s) (close_price b) (entry_price s))
                   (Fin (stop_loss_pct s))
            \<and> h \<noteq> 0
            \<and> fl_ge (pct_of h (close_price b) h) (Fin (take_profit_pct s)) \<longrightarrow>
            on_bar hook s b =
              hook (emit [WriteLog (TrailingTakeProfitTriggered (pct_of h (close_price b) h)),
                          Sell (close_price b) \<bar>pos s\<bar>]
                      (s\<lparr>current_price := close_price b, highest_price := h\<rparr>)) b)"
  using assms
  by (simp add: risk_management_def on_bar_def update_extremes_long Let_def emit_def)

text \<open>
  Entry at 100, highest price 120, a bar closing at 107: the computed drawdown is the double
  10.833333333333334, the position is still above its entry, and the exit is the trailing
  take-profit. The partly closed position raises.
\<close>

theorem trailing_take_profit_witness:
  "entry_price long_100 < close_price bar_107
   \<and> on_bar trading_logic long_100 bar_107 =
     Raised NotImplementedError
       (long_100\<lparr>current_price := 107,
          emitted := [WriteLog (TrailingTakeProfitTriggered (Fin (6098624495397547 / 2 ^ 49))),
                      Sell 107 100]\<rparr>)
   \<and> on_bar trading_logic long_partly_closed bar_107 =
     Raised ZeroDivisionError (long_partly_closed\<lparr>current_price := 107\<rparr>)"
proof -
  have p: "0 < pos long_100" "0 < pos long_partly_closed"
    by (simp_all add: long_100_def long_partly_closed_def)
  have h: "120 = max (highest_price long_100) (high_price bar_107)"
    "120 = max (highest_price long_partly_closed) (high_price bar_107)"
    by (simp_all add: long_100_def long_partly_closed_def bar_107_def)
  have v: "pct_of (entry_price long_100) (close_price bar_107) (entry_price long_100)
             = Fin (- (7881299347898369 / 2 ^ 50))"
    "pct_of 120 (close_price bar_107) 120 = Fin (6098624495397547 / 2 ^ 49)"
    by (simp_all add: long_100_def bar_107_def pct_100_107 pct_120_107)
  show ?thesis
    using trailing_take_profit [OF p(1) h(1), of trading_logic]
      trailing_take_profit [OF p(2) h(2), of trading_logic] v
    by (simp add: long_100_def long_partly_closed_def bar_107_def emit_def trading_logic_def
        fl_ge_def)
qed

text \<open>
  On the exact quotient the claim fails twice. Highest price 100, close 71 and a trailing
  take-profit at 29 percent: the drawdown is exactly 29 percent and the stop-loss condition
  does not hold, but the computed drawdown is 28.999999999999996 and nothing is emitted.
  And the partly closed position, whose drawdown from 120 to 107 is above 10 percent:
  the division by its entry price 0 raises and nothing is sold.
\<close>

theorem trailing_take_profit_counterexample:
  "take_profit_pct long_tp_29
     \<le> (max (highest_price long_tp_29) (high_price bar_71) - close_price bar_71)
         / max (highest_price long_tp_29) (high_price bar_71) * 100
   \<and> \<not> stop_loss_pct long_tp_29
         \<le> (entry_price long_tp_29 - close_price bar_71) / entry_price long_tp_29 * 100
   \<and> on_bar trading_logic long_tp_29 bar_71 =
       Raised NotImplementedError (long_tp_29\<lparr>current_price := 71\<rparr>)
   \<and> take_profit_pct long_partly_closed
       \<le> (max (highest_price long_partly_closed) (high_price bar_107) - close_price bar_107)
           / max (highest_price long_partly_closed) (high_price bar_107) * 100
   \<and> on_bar trading_logic long_partly_closed bar_107 =
       Raised ZeroDivisionError (long_partly_closed\<lparr>current_price := 107\<rparr>)"
  by (simp add: on_bar_def risk_management_def update_extremes_def long_tp_29_def
      long_partly_closed_def long_100_def bar_71_def bar_107_def pct_100_71 pct_64_71
      fl_ge_def trading_logic_def)

subsection \<open>Position sizing\<close>

lemma stop_loss_amount_zero:
  "pr = 0 \<or> stop_loss_pct s = 0 \<Longrightarrow> stop_loss_amount s pr = Fin 0"
  by (auto simp add: stop_loss_amount_def pyf_mul_def pyf_quot_def round_double_zero)

lemma sizing_quotient_sign:
  assumes "0 < pr" and "0 < stop_loss_pct s" and "0 \<le> capital" and "0 \<le> risk_percent s"
    and "stop_loss_amount s pr \<noteq> Fin 0" and "sizing_quotient s capital pr = Fin q"
  shows "0 \<le> q"
proof -
  have r: "fl_nonneg (risk_amount s capital)"
    unfolding risk_amount_def using assms(3,4)
    by (intro pyf_quot_100_nonneg pyf_mul_nonneg)
  have a: "fl_nonneg (stop_loss_amount s pr)"
    unfolding stop_loss_amount_def using assms(1,2)
    by (intro pyf_quot_100_nonneg pyf_mul_nonneg) simp_all
  from pyf_quot_nonneg [OF r a assms(5)] assms(6) show ?thesis
    by (simp add: sizing_quotient_def fl_nonneg_def)
qed

lemmas sizing_eval = risk_amount_def stop_loss_amount_def sizing_quotient_def
  pyf_mul_def pyf_quot_def round_even_def overflow_threshold_def

lemma stop_loss_amount_1: "stop_loss_amount long_100 1 = Fin (7205759403792794 / 2 ^ 57)"
  by (simp add: long_100_def sizing_eval round_double_normal [of 2] round_double_normal [of "- 5"])

lemma sizing_quotient_15_1: "sizing_quotient long_100 15 1 = Fin (6755399441055743 / 2 ^ 50)"
  by (simp add: long_100_def sizing_eval round_double_normal [of 4]
      round_double_normal [of "- 2"] round_double_normal [of 2] round_double_normal [of "- 5"])

lemma stop_loss_amount_30: "stop_loss_amount long_100 30 = Fin (3 / 2)"
  "stop_loss_amount long_100 (- 30) = Fin (- (3 / 2))"
  by (simp_all add: long_100_def sizing_eval round_double_normal [of 7]
      round_double_normal [of 0])

lemma sizing_quotient_1000_30:
  "sizing_quotient long_100 1000 (- 30) = Fin (- (7505999378950827 / 2 ^ 49))"
  by (simp add: long_100_def sizing_eval round_double_normal [of 10]
      round_double_normal [of 4] round_double_normal [of 7] round_double_normal [of 0]
      round_double_normal [of 3])

lemma sizing_quotient_100000_30:
  "sizing_quotient long_100 100000 30 = Fin (5864062014805333 / 2 ^ 42)"
  by (simp add: long_100_def sizing_eval round_double_normal [of 17]
      round_double_normal [of 10] round_double_normal [of 7] round_double_normal [of 0])

lemma stop_loss_amount_neg_10: "stop_loss_amount long_100 (- 10) = Fin (- (1 / 2))"
  by (simp add: long_100_def sizing_eval round_double_normal [of 5]
      round_double_normal [of "- 1"])

lemma sizing_quotient_neg_10: "sizing_quotient long_100 100000 (- 10) = Fin (- 4000)"
  by (simp add: long_100_def sizing_eval round_double_normal [of 17]
      round_double_normal [of 10] round_double_normal [of 5] round_double_normal [of "- 1"]
      round_double_normal [of 11])

lemma sizing_quotient_overflow: "sizing_quotient long_100 huge_capital 1 = PInf"
proof -
  have "risk_amount long_100 huge_capital = PInf"
    by (simp add: risk_amount_def pyf_mul_def pyf_quot_def long_100_def huge_capital_def
        round_double_overflow overflow_threshold_def)
  then show ?thesis
    by (simp add: sizing_quotient_def stop_loss_amount_1 pyf_quot_def)
qed

text \<open>
  C7, as the code has it. \<^verbatim>\<open>calculate_position\<close> checks nothing. It raises
  \<^verbatim>\<open>ZeroDivisionError\<close> exactly when the stop-loss amount \<open>price * stop_loss_pct / 100\<close>,
  computed in double arithmetic, is zero, which it is for a zero price or a zero stop-loss
  percentage. Otherwise it takes the quotient of the risk amount by the stop-loss amount in
  double arithmetic: an infinite quotient raises \<^verbatim>\<open>OverflowError\<close>, a NaN quotient
  \<^verbatim>\<open>ValueError\<close>, and a finite one, for a negative price or percentage too, is
  truncated toward zero and capped at \<open>max_position\<close>. For a positive price and percentage
  and a capital and risk percentage that are not negative the finite quotient is not
  negative and the result is its floor, capped. The object's state is unchanged in every
  case.
\<close>

theorem calculate_position_amended:
  "(pr = 0 \<or> stop_loss_pct s = 0 \<longrightarrow>
      calculate_position s capital pr = (Inl ZeroDivisionError, s))
   \<and> (fst (calculate_position s capital pr) = Inl ZeroDivisionError
        \<longleftrightarrow> stop_loss_amount s pr = Fin 0)
   \<and> (stop_loss_amount s pr \<noteq> Fin 0 \<longrightarrow>
      calculate_position s capital pr =
        (case sizing_quotient s capital pr of
           Fin q \<Rightarrow> Inr (min (py_int q) (max_position s))
         | PInf \<Rightarrow> Inl OverflowError
         | NInf \<Rightarrow> Inl OverflowError
         | NaN \<Rightarrow> Inl ValueError, s))
   \<and> (0 < pr \<and> 0 < stop_loss_pct s \<and> 0 \<le> capital \<and> 0 \<le> risk_percent s
        \<and> stop_loss_amount s pr \<noteq> Fin 0 \<longrightarrow>
      (\<forall>q. sizing_quotient s capital pr = Fin q \<longrightarrow>
         0 \<le> q
         \<and> calculate_position s capital pr = (Inr (min \<lfloor>q\<rfloor> (max_position s)), s)))
   \<and> snd (calculate_position s capital pr) = s"
proof -
  have c3: "stop_loss_amount s pr \<noteq> Fin 0 \<Longrightarrow>
      calculate_position s capital pr =
        (case sizing_quotient s capital pr of
           Fin q \<Rightarrow> Inr (min (py_int q) (max_position s))
         | PInf \<Rightarrow> Inl OverflowError
         | NInf \<Rightarrow> Inl OverflowError
         | NaN \<Rightarrow> Inl ValueError, s)"
    by (cases "sizing_quotient s capital pr") (simp_all add: calculate_position_def)
  have c1: "pr = 0 \<or> stop_loss_pct s = 0 \<Longrightarrow>
      calculate_position s capital pr = (Inl ZeroDivisionError, s)"
    by (simp add: calculate_position_def stop_loss_amount_zero)
  have c2: "fst (calculate_position s capital pr) = Inl ZeroDivisionError
        \<longleftrightarrow> stop_loss_amount s pr = Fin 0"
    by (cases "sizing_quotient s capital pr") (simp_all add: calculate_position_def)
  have c4: "0 < pr \<and> 0 < stop_loss_pct s \<and> 0 \<le> capital \<and> 0 \<le> risk_percent s
        \<and> stop_loss_amount s pr \<noteq> Fin 0 \<Longrightarrow>
      sizing_quotient s capital pr = Fin q \<Longrightarrow>
         0 \<le> q
         \<and> calculate_position s capital pr = (Inr (min \<lfloor>q\<rfloor> (max_position s)), s)" for q
    using sizing_quotient_sign [of pr s capital q]
    by (simp add: calculate_position_def py_int_def)
  have c5: "snd (calculate_position s capital pr) = s"
    by (cases "sizing_quotient s capital pr") (simp_all add: calculate_position_def)
  from c1 c2 c3 c4 c5 show ?thesis by blast
qed

text \<open>
  With the default parameters: capital 15 at price 1 gives the double quotient
  5.999999999999999 and the size 5, where the exact quotient is 6; price 0 raises; price -30
  returns -13; the cap applies at price 30; the capital \<open>2^1023\<close> overflows.
\<close>

theorem calculate_position_amended_witness:
  "calculate_position long_100 15 1 = (Inr 5, long_100)
   \<and> \<lfloor>(15 * risk_percent long_100 / 100) / (1 * stop_loss_pct long_100 / 100)\<rfloor> = 6
   \<and> calculate_position long_100 1000 0 = (Inl ZeroDivisionError, long_100)
   \<and> calculate_position long_100 1000 (- 30) = (Inr (- 13), long_100)
   \<and> calculate_position long_100 100000 30 = (Inr 100, long_100)
   \<and> calculate_position long_100 huge_capital 1 = (Inl OverflowError, long_100)"
proof -
  have m: "max_position long_100 = 100" "risk_percent long_100 = 2" "stop_loss_pct long_100 = 5"
    by (simp_all add: long_100_def)
  have 1: "calculate_position long_100 15 1 = (Inr 5, long_100)"
    using calculate_position_amended [of 1 long_100 15]
    by (simp add: stop_loss_amount_1 sizing_quotient_15_1 py_int_def m)
  have 2: "calculate_position long_100 1000 0 = (Inl ZeroDivisionError, long_100)"
    using calculate_position_amended [of 0 long_100 1000] by simp
  have 3: "calculate_position long_100 1000 (- 30) = (Inr (- 13), long_100)"
    using calculate_position_amended [of "- 30" long_100 1000]
    by (simp add: stop_loss_amount_30 sizing_quotient_1000_30 py_int_def m)
  have 4: "calculate_position long_100 100000 30 = (Inr 100, long_100)"
    using calculate_position_amended [of 30 long_100 100000]
    by (simp add: stop_loss_amount_30 sizing_quotient_100000_30 py_int_def m)
  have 5: "calculate_position long_100 huge_capital 1 = (Inl OverflowError, long_100)"
    using calculate_position_amended [of 1 long_100 huge_capital]
    by (simp add: stop_loss_amount_1 sizing_quotient_overflow)
  from 1 2 3 4 5 show ?thesis by (simp add: m)
qed

text \<open>
  The claim as the specification states it fails: with a negative price the call returns a
  (negative) size and reports nothing.
\<close>

theorem calculate_position_negative_price:
  "calculate_position long_100 100000 (- 10) = (Inr (- 4000), long_100)"
proof -
  have m: "max_position long_100 = 100" by (simp add: long_100_def)
  show ?thesis
    by (simp add: calculate_position_def stop_loss_amount_neg_10 sizing_quotient_neg_10
        py_int_def m)
qed


subsection \<open>The extremes over the lifetime of a position\<close>

lemma emit_fields [simp]:
  "pos (emit es s) = pos s" "highest_price (emit es s) = highest_price s"
  "lowest_price (emit es s) = lowest_price s" "entry_price (emit es s) = entry_price s"
  by (simp_all add: emit_def)

text \<open>
  The risk management assigns to no attribute: it returns the state with what it emitted,
  or raises with the state as it was.
\<close>

lemma risk_management_returns_or_raises:
  "(\<exists>es. risk_management s b = Returned (emit es s)) \<or> (\<exists>e. risk_management s b = Raised e s)"
proof -
  have e: "Returned s = Returned (emit [] s)" by (simp add: emit_def)
  have "\<exists>es. Returned s = Returned (emit es s)"
    using e by blast
  then show ?thesis
    unfolding risk_management_def Let_def
    by (simp split: if_split) blast
qed

lemma on_bar_fields:
  fixes hook :: hook and s :: strategy and b :: bar
  assumes "keeps_extremes hook"
  defines "s1 \<equiv> update_extremes (s\<lparr>current_price := close_price b\<rparr>) (high_price b) (low_price b)"
  shows "pos (state_of (on_bar hook s b)) = pos s1
       \<and> highest_price (state_of (on_bar hook s b)) = highest_price s1
       \<and> lowest_price (state_of (on_bar hook s b)) = lowest_price s1"
proof -
  have ob: "on_bar hook s b = and_then (risk_management s1 b) (\<lambda>s2. hook s2 b)"
    by (simp add: on_bar_def s1_def Let_def)
  from risk_management_returns_or_raises [of s1 b] show ?thesis
  proof
    assume "\<exists>es. risk_management s1 b = Returned (emit es s1)"
    then obtain es where "risk_management s1 b = Returned (emit es s1)" by blast
    with ob have "on_bar hook s b = hook (emit es s1) b" by simp
    with assms(1) show ?thesis by (simp add: keeps_extremes_def)
  next
    assume "\<exists>e. risk_management s1 b = Raised e s1"
    then obtain e where "risk_management s1 b = Raised e s1" by blast
    with ob show ?thesis by simp
  qed
qed

lemma after_event_pos:
  "keeps_extremes hook \<Longrightarrow> pos (after_event hook s e) = pos s"
  by (cases e) (simp_all add: on_bar_fields on_tick_def update_extremes_def)

lemma after_event_highest:
  "keeps_extremes hook \<Longrightarrow> 0 < pos s \<Longrightarrow> highest_price s \<le> highest_price (after_event hook s e)"
  by (cases e) (simp_all add: on_bar_fields on_tick_def update_extremes_def)

lemma after_event_lowest:
  assumes "keeps_extremes hook" and "pos s < 0" and "lowest_price s = Fin r"
  shows "\<exists>r'. lowest_price (after_event hook s e) = Fin r' \<and> r' \<le> r"
  using assms
  by (cases e) (simp_all add: on_bar_fields on_tick_def update_extremes_def py_min_def)

lemma trace_highest_bound:
  "keeps_extremes hook \<Longrightarrow> 0 < pos s \<Longrightarrow> x \<in> set (trace hook s es)
     \<Longrightarrow> highest_price s \<le> highest_price x"
proof (induction es arbitrary: s)
  case Nil
  then show ?case by simp
next
  case (Cons e es)
  from Cons.prems(3) consider "x = s" | "x \<in> set (trace hook (after_event hook s e) es)"
    by auto
  then show ?case
  proof cases
    case 1
    then show ?thesis by simp
  next
    case 2
    have "0 < pos (after_event hook s e)"
      using Cons.prems(1,2) by (simp add: after_event_pos)
    from Cons.IH [OF Cons.prems(1) this 2]
    have "highest_price (after_event hook s e) \<le> highest_price x" .
    with after_event_highest [OF Cons.prems(1,2), of e] show ?thesis by linarith
  qed
qed

lemma trace_highest_sorted:
  "keeps_extremes hook \<Longrightarrow> 0 < pos s
     \<Longrightarrow> sorted_wrt (\<lambda>a b. highest_price a \<le> highest_price b) (trace hook s es)"
proof (induction es arbitrary: s)
  case Nil
  then show ?case by simp
next
  case (Cons e es)
  have p: "0 < pos (after_event hook s e)"
    using Cons.prems by (simp add: after_event_pos)
  have "\<forall>x \<in> set (trace hook (after_event hook s e) es). highest_price s \<le> highest_price x"
  proof
    fix x assume "x \<in> set (trace hook (after_event hook s e) es)"
    from trace_highest_bound [OF Cons.prems(1) p this]
      after_event_highest [OF Cons.prems(1,2), of e]
    show "highest_price s \<le> highest_price x" by linarith
  qed
  with Cons.IH [OF Cons.prems(1) p] show ?case by simp
qed

lemma trace_lowest_bound:
  "keeps_extremes hook \<Longrightarrow> pos s < 0 \<Longrightarrow> lowest_price s = Fin r
     \<Longrightarrow> x \<in> set (trace hook s es)
     \<Longrightarrow> \<exists>r'. lowest_price x = Fin r' \<and> r' \<le> r"
proof (induction es arbitrary: s r)
  case Nil
  then show ?case by simp
next
  case (Cons e es)
  from Cons.prems(4) consider "x = s" | "x \<in> set (trace hook (after_event hook s e) es)"
    by auto
  then show ?case
  proof cases
    case 1
    with Cons.prems(3) show ?thesis by simp
  next
    case 2
    have p: "pos (after_event hook s e) < 0"
      using Cons.prems(1,2) by (simp add: after_event_pos)
    from after_event_lowest [OF Cons.prems(1,2,3), of e]
    obtain r1 where r1: "lowest_price (after_event hook s e) = Fin r1" "r1 \<le> r" by blast
    from Cons.IH [OF Cons.prems(1) p r1(1) 2]
    obtain r' where "lowest_price x = Fin r'" "r' \<le> r1" by blast
    with r1(2) show ?thesis by auto
  qed
qed

lemma trace_lowest_sorted:
  "keeps_extremes hook \<Longrightarrow> pos s < 0 \<Longrightarrow> lowest_price s = Fin r
     \<Longrightarrow> sorted_wrt (\<lambda>a b. fl_le (lowest_price b) (lowest_price a)) (trace hook s es)"
proof (induction es arbitrary: s r)
  case Nil
  then show ?case by simp
next
  case (Cons e es)
  have p: "pos (after_event hook s e) < 0"
    using Cons.prems by (simp add: after_event_pos)
  from after_event_lowest [OF Cons.prems(1,2,3), of e]
  obtain r1 where r1: "lowest_price (after_event hook s e) = Fin r1" "r1 \<le> r" by blast
  have "\<forall>x \<in> set (trace hook (after_event hook s e) es). fl_le (lowest_price x) (lowest_price s)"
  proof
    fix x assume "x \<in> set (trace hook (after_event hook s e) es)"
    from trace_lowest_bound [OF Cons.prems(1) p r1(1) this]
    obtain r' where "lowest_price x = Fin r'" "r' \<le> r1" by blast
    with r1(2) Cons.prems(3) show "fl_le (lowest_price x) (lowest_price s)" by simp
  qed
  with Cons.IH [OF Cons.prems(1) p r1(1)] show ?case by simp
qed

lemma keeps_extremes_trading_logic: "keeps_extremes trading_logic"
  by (simp add: keeps_extremes_def trading_logic_def)

text \<open>
  C6. An opening fill sets both extremes to the fill price. From there, over every sequence
  of bars and ticks handled by a strategy whose trading hook leaves the position and the
  extremes alone, the highest price never decreases from one state to any later one while
  the position is long, and the lowest price never increases while it is short.
\<close>

theorem extremes_monotonic:
  assumes "keeps_extremes hook" and "offset t = OPEN"
  shows "highest_price (state_of (on_trade s t)) = price t
       \<and> lowest_price (state_of (on_trade s t)) = Fin (price t)
       \<and> (0 < pos s \<longrightarrow>
            sorted_wrt (\<lambda>a b. highest_price a \<le> highest_price b)
              (trace hook (state_of (on_trade s t)) es))
       \<and> (pos s < 0 \<longrightarrow>
            sorted_wrt (\<lambda>a b. fl_le (lowest_price b) (lowest_price a))
              (trace hook (state_of (on_trade s t)) es))"
proof -
  let ?s1 = "state_of (on_trade s t)"
  have f: "pos ?s1 = pos s" "highest_price ?s1 = price t" "lowest_price ?s1 = Fin (price t)"
    using assms(2) by (simp_all add: on_trade_def)
  show ?thesis
    using f trace_highest_sorted [OF assms(1), of ?s1 es]
      trace_lowest_sorted [OF assms(1) _ f(3), of es]
    by simp
qed

theorem extremes_monotonic_witness:
  "map highest_price
     (trace trading_logic (state_of (on_trade long_100 (open_at_100 LONG)))
        [OnBar bar_107, OnBar bar_94]) = [100, 113, 113]
   \<and> sorted_wrt (\<lambda>a b. highest_price a \<le> highest_price b)
       (trace trading_logic (state_of (on_trade long_100 (open_at_100 LONG)))
          [OnBar bar_107, OnBar bar_94])
   \<and> map lowest_price
     (trace trading_logic (state_of (on_trade short_100 (open_at_100 SHORT)))
        [OnBar bar_107, OnBar bar_94]) = [Fin 100, Fin 100, Fin 93]
   \<and> sorted_wrt (\<lambda>a b. fl_le (lowest_price b) (lowest_price a))
       (trace trading_logic (state_of (on_trade short_100 (open_at_100 SHORT)))
          [OnBar bar_107, OnBar bar_94])"
proof -
  have o: "offset (open_at_100 LONG) = OPEN" "offset (open_at_100 SHORT) = OPEN"
    by (simp_all add: open_at_100_def)
  have p: "0 < pos long_100" "pos short_100 < 0"
    by (simp_all add: long_100_def short_100_def)
  have v: "map highest_price
     (trace trading_logic (state_of (on_trade long_100 (open_at_100 LONG)))
        [OnBar bar_107, OnBar bar_94]) = [100, 113, 113]"
    "map lowest_price
     (trace trading_logic (state_of (on_trade short_100 (open_at_100 SHORT)))
        [OnBar bar_107, OnBar bar_94]) = [Fin 100, Fin 100, Fin 93]"
    by (simp_all add: on_trade_def on_bar_def risk_management_def update_extremes_def
        trading_logic_def emit_def py_min_def Let_def open_at_100_def long_100_def
        short_100_def bar_107_def bar_94_def)
  show ?thesis
    using v p
      extremes_monotonic [OF keeps_extremes_trading_logic o(1),
        of long_100 "[OnBar bar_107, OnBar bar_94]"]
      extremes_monotonic [OF keeps_extremes_trading_logic o(2),
        of short_100 "[OnBar bar_107, OnBar bar_94]"]
    by simp
qed

subsection \<open>Cross detection\<close>

lemma fl_sub_gt_zero_swap: "fl_gt (fl_sub x y) (Fin 0) = fl_lt (fl_sub y x) (Fin 0)"
  by (cases x; cases y; simp add: fl_sub_def fl_gt_def)

lemma fl_sub_le_zero_swap: "fl_le (fl_sub x y) (Fin 0) = fl_ge (fl_sub y x) (Fin 0)"
  by (cases x; cases y; simp add: fl_sub_def fl_ge_def)

lemma cross_antisymmetric:
  "golden_cross A B t = death_cross B A t" "death_cross A B t = golden_cross B A t"
  by (simp_all add: golden_cross_def death_cross_def fl_sub_gt_zero_swap fl_sub_le_zero_swap)

lemma length_shift [simp]: "length (shift xs) = length xs"
  by (simp add: shift_def)

lemma shift_nth:
  "t < length xs \<Longrightarrow> shift xs ! t = (if t = 0 then NaN else xs ! (t - 1))"
  by (cases t) (simp_all add: shift_def)

lemma length_series_sub [simp]: "length (series_sub xs ys) = min (length xs) (length ys)"
  by (simp add: series_sub_def)

lemma series_sub_nth:
  "t < length xs \<Longrightarrow> t < length ys \<Longrightarrow> series_sub xs ys ! t = fl_sub (xs ! t) (ys ! t)"
  by (simp add: series_sub_def)

lemma fl_gt_lt_zero: "fl_gt x (Fin 0) \<Longrightarrow> \<not> fl_lt x (Fin 0)"
  by (cases x; simp add: fl_gt_def)

lemma length_cross_signal [simp]: "length (cross_signal d) = length d"
  by (simp add: cross_signal_def set_where_def golden_mask_def death_mask_def)

lemma cross_signal_nth:
  assumes "t < length d"
  shows "cross_signal d ! t =
           (if fl_lt (d ! t) (Fin 0) \<and> fl_ge (shift d ! t) (Fin 0) then Fin (- 1)
            else if fl_gt (d ! t) (Fin 0) \<and> fl_le (shift d ! t) (Fin 0) then Fin 1
            else Fin 0)"
  using assms
  by (simp add: cross_signal_def set_where_def golden_mask_def death_mask_def)

lemma cross_signal_golden:
  assumes "length A = length B" and "t < length A"
  shows "cross_signal (series_sub A B) ! t = Fin 1 \<longleftrightarrow> golden_cross A B t"
proof (cases t)
  case 0
  with assms show ?thesis
    by (simp add: cross_signal_nth shift_nth golden_cross_def fl_ge_def)
next
  case (Suc k)
  with assms show ?thesis
    using fl_gt_lt_zero [of "fl_sub (A ! t) (B ! t)"]
    by (auto simp add: cross_signal_nth shift_nth golden_cross_def series_sub_nth)
qed

lemma cross_signal_death:
  assumes "length A = length B" and "t < length A"
  shows "cross_signal (series_sub A B) ! t = Fin (- 1) \<longleftrightarrow> death_cross A B t"
proof (cases t)
  case 0
  with assms show ?thesis
    by (simp add: cross_signal_nth shift_nth death_cross_def fl_ge_def)
next
  case (Suc k)
  with assms show ?thesis
    by (auto simp add: cross_signal_nth shift_nth death_cross_def series_sub_nth)
qed

lemma detect_ma_cross_signal:
  assumes "df (ma_name fast) = Some A" and "df (ma_name slow) = Some B"
    and "length A = length B"
  shows "\<exists>df'. detect_ma_cross df fast slow = Returned df'
           \<and> df' ''cross_signal'' = Some (cross_signal (series_sub A B))"
  using assms by (simp add: detect_ma_cross_def Let_def)

text \<open>
  C8. For two moving-average columns \<open>A\<close> and \<open>B\<close> of a frame and every row \<open>t\<close>,
  \<^verbatim>\<open>detect_ma_cross\<close> marks \<open>t\<close> with 1 exactly at the golden crosses of \<open>(A, B)\<close> and
  with -1 exactly at its death crosses; called with the two columns swapped it marks \<open>t\<close>
  with -1 exactly where the first call marks 1, and with 1 exactly where the first marks -1.
\<close>

theorem cross_detection_antisymmetric:
  assumes "df (ma_name fast) = Some A" and "df (ma_name slow) = Some B"
    and "length A = length B" and "t < length A"
  shows "\<exists>d1 d2. detect_ma_cross df fast slow = Returned d1
           \<and> detect_ma_cross df slow fast = Returned d2
           \<and> (cell d1 ''cross_signal'' t = Some (Fin 1) \<longleftrightarrow> golden_cross A B t)
           \<and> (cell d1 ''cross_signal'' t = Some (Fin (- 1)) \<longleftrightarrow> death_cross A B t)
           \<and> (cell d1 ''cross_signal'' t = Some (Fin 1)
                \<longleftrightarrow> cell d2 ''cross_signal'' t = Some (Fin (- 1)))
           \<and> (cell d1 ''cross_signal'' t = Some (Fin (- 1))
                \<longleftrightarrow> cell d2 ''cross_signal'' t = Some (Fin 1))"
proof -
  from detect_ma_cross_signal [OF assms(1,2,3)]
  obtain d1 where d1: "detect_ma_cross df fast slow = Returned d1"
    "d1 ''cross_signal'' = Some (cross_signal (series_sub A B))" by blast
  from detect_ma_cross_signal [OF assms(2,1)] assms(3)
  obtain d2 where d2: "detect_ma_cross df slow fast = Returned d2"
    "d2 ''cross_signal'' = Some (cross_signal (series_sub B A))" by auto
  have c1: "cell d1 ''cross_signal'' t = Some (cross_signal (series_sub A B) ! t)"
    using d1(2) assms(3,4) by (simp add: cell_def)
  have c2: "cell d2 ''cross_signal'' t = Some (cross_signal (series_sub B A) ! t)"
    using d2(2) assms(3,4) by (simp add: cell_def)
  have g1: "cross_signal (series_sub A B) ! t = Fin 1 \<longleftrightarrow> golden_cross A B t"
    and e1: "cross_signal (series_sub A B) ! t = Fin (- 1) \<longleftrightarrow> death_cross A B t"
    using assms(3,4) by (simp_all add: cross_signal_golden cross_signal_death)
  have g2: "cross_signal (series_sub B A) ! t = Fin 1 \<longleftrightarrow> golden_cross B A t"
    and e2: "cross_signal (series_sub B A) ! t = Fin (- 1) \<longleftrightarrow> death_cross B A t"
    using assms(3,4) by (simp_all add: cross_signal_golden cross_signal_death)
  show ?thesis
    using d1(1) d2(1) c1 c2 g1 e1 g2 e2 cross_antisymmetric [of A B t]
    by simp
qed

theorem cross_detection_antisymmetric_witness:
  "cell (state_of (detect_ma_cross cross_frame 5 10)) ''cross_signal'' 1 = Some (Fin 1)
   \<and> cell (state_of (detect_ma_cross cross_frame 10 5)) ''cross_signal'' 1 = Some (Fin (- 1))
   \<and> cell (state_of (detect_ma_cross cross_frame 5 10)) ''cross_signal'' 2 = Some (Fin (- 1))
   \<and> cell (state_of (detect_ma_cross cross_frame 10 5)) ''cross_signal'' 2 = Some (Fin 1)"
proof -
  have n: "ma_name 5 \<noteq> ma_name 10"
    by (simp add: ma_name_def string_of_int_def string_of_nat.simps)
  have h: "cross_frame (ma_name 5) = Some [Fin 1, Fin 3, Fin 1]"
    "cross_frame (ma_name 10) = Some [Fin 2, Fin 2, Fin 2]"
    "length [Fin 1, Fin 3, Fin 1] = length [Fin 2, Fin 2, Fin 2]"
    using n by (simp_all add: cross_frame_def)
  have g: "golden_cross [Fin 1, Fin 3, Fin 1] [Fin 2, Fin 2, Fin 2] 1"
    "death_cross [Fin 1, Fin 3, Fin 1] [Fin 2, Fin 2, Fin 2] 2"
    by (simp_all add: golden_cross_def death_cross_def fl_sub_def fl_gt_def fl_ge_def)
  from cross_detection_antisymmetric [OF h, of 1] cross_detection_antisymmetric [OF h, of 2] g
  show ?thesis by auto
qed

subsection \<open>The input columns are a frame of the engine\<close>

text \<open>
  Every column that the engine writes has a name that starts with \<^verbatim>\<open>ma\<close>, \<^verbatim>\<open>ema\<close>,
  \<^verbatim>\<open>rsi\<close>, \<^verbatim>\<open>atr\<close>, \<^verbatim>\<open>macd_\<close>, \<^verbatim>\<open>kdj_\<close>, \<^verbatim>\<open>boll_\<close> or is
  \<^verbatim>\<open>cross_signal\<close>: none is the name of an input column.
\<close>

lemma bar_columns_upd:
  assumes "name \<noteq> ''datetime''" and "name \<noteq> ''open''" and "name \<noteq> ''high''"
    and "name \<noteq> ''low''" and "name \<noteq> ''close''" and "name \<noteq> ''volume''"
  shows "bar_columns (df(name \<mapsto> v)) = bar_columns df"
  using assms by (simp add: bar_columns_def)

lemma bar_columns_ma [simp]: "bar_columns (df(ma_name p \<mapsto> v)) = bar_columns df"
  by (rule bar_columns_upd) (simp_all add: ma_name_def)

lemma bar_columns_ema [simp]: "bar_columns (df(ema_name p \<mapsto> v)) = bar_columns df"
  by (rule bar_columns_upd) (simp_all add: ema_name_def)

lemma bar_columns_rsi [simp]: "bar_columns (df(rsi_name p \<mapsto> v)) = bar_columns df"
  by (rule bar_columns_upd) (simp_all add: rsi_name_def)

lemma bar_columns_atr [simp]: "bar_columns (df(atr_name p \<mapsto> v)) = bar_columns df"
  by (rule bar_columns_upd) (simp_all add: atr_name_def)

lemma add_ma_frame: "bar_columns (state_of (add_ma df periods)) = bar_columns df"
  by (induction periods arbitrary: df) (simp_all split: option.split)

lemma add_ema_frame: "bar_columns (state_of (add_ema df periods)) = bar_columns df"
  by (induction periods arbitrary: df) (simp_all split: option.split)

lemma add_rsi_frame: "bar_columns (state_of (add_rsi df periods)) = bar_columns df"
  by (induction periods arbitrary: df) (simp_all split: option.split)

lemma add_macd_frame: "bar_columns (state_of (add_macd df fast slow signal)) = bar_columns df"
  by (simp add: add_macd_def Let_def bar_columns_def split: option.split)

lemma add_kdj_frame: "bar_columns (state_of (add_kdj df n m1 m2)) = bar_columns df"
  by (simp add: add_kdj_def Let_def bar_columns_def split: option.split)

lemma add_boll_frame: "bar_columns (state_of (add_boll df period k)) = bar_columns df"
  by (simp add: add_boll_def Let_def bar_columns_def split: option.split)

lemma add_atr_frame: "bar_columns (state_of (add_atr df period)) = bar_columns df"
  by (simp add: add_atr_def split: option.split)

lemma detect_ma_cross_frame:
  "bar_columns (state_of (detect_ma_cross df fast slow)) = bar_columns df"
  by (simp add: detect_ma_cross_def Let_def bar_columns_def split: option.split)

lemma and_then_frame:
  assumes "\<And>d. bar_columns (state_of (f d)) = bar_columns d"
  shows "bar_columns (state_of (and_then r f)) = bar_columns (state_of r)"
  using assms by (cases r) simp_all

lemma calculate_all_frame: "bar_columns (state_of (calculate_all df)) = bar_columns df"
  unfolding calculate_all_def
  by (simp only: and_then_frame add_ma_frame add_ema_frame add_macd_frame add_kdj_frame
      add_rsi_frame add_boll_frame add_atr_frame)

text \<open>
  C10. Each operation of the engine, whatever its arguments and whether it returns or
  raises, leaves the six input columns \<^verbatim>\<open>datetime, open, high, low, close, volume\<close> of
  the frame as they were (present or absent, and every cell of them).
\<close>

theorem engine_keeps_bar_columns:
  "bar_columns (state_of (add_ma df periods)) = bar_columns df
   \<and> bar_columns (state_of (add_ema df periods)) = bar_columns df
   \<and> bar_columns (state_of (add_macd df fast slow signal)) = bar_columns df
   \<and> bar_columns (state_of (add_kdj df n m1 m2)) = bar_columns df
   \<and> bar_columns (state_of (add_rsi df periods)) = bar_columns df
   \<and> bar_columns (state_of (add_boll df period k)) = bar_columns df
   \<and> bar_columns (state_of (add_atr df period)) = bar_columns df
   \<and> bar_columns (state_of (detect_ma_cross df fast slow)) = bar_columns df
   \<and> bar_columns (state_of (calculate_all df)) = bar_columns df"
  by (simp add: add_ma_frame add_ema_frame add_macd_frame add_kdj_frame
      add_rsi_frame add_boll_frame add_atr_frame detect_ma_cross_frame calculate_all_frame)

theorem engine_keeps_bar_columns_witness:
  "bar_columns (state_of (calculate_all (frame_of_bars [bar_94, bar_107]))) =
     [Some [Fin 1, Fin 2], Some [Fin 108, Fin 112], Some [Fin 109, Fin 113],
      Some [Fin 93, Fin 106], Some [Fin 94, Fin 107], Some [Fin 500000, Fin 500000]]"
  using engine_keeps_bar_columns [of "frame_of_bars [bar_94, bar_107]"]
  by (simp add: bar_columns_def frame_of_bars_def bar_94_def bar_107_def)

subsection \<open>Rolling windows over finite columns\<close>

lemma window_nths:
  assumes "L \<le> i + 1" and "i < length xs"
  shows "window L i xs = map ((!) xs) [Suc i - L..<Suc i]"
proof (rule nth_equalityI)
  show "length (window L i xs) = length (map ((!) xs) [Suc i - L..<Suc i])"
    using assms by (simp add: window_def del: upt_Suc)
next
  fix j assume "j < length (window L i xs)"
  with assms have j: "j < L" by (simp add: window_def)
  with assms show "window L i xs ! j = map ((!) xs) [Suc i - L..<Suc i] ! j"
    by (simp add: window_def add.commute del: upt_Suc)
qed

lemma window_last_values:
  "L \<le> i + 1 \<Longrightarrow> i < length rs \<Longrightarrow> window L i rs = last_values L i rs"
  by (simp add: window_nths last_values_def)

lemma length_window: "L \<le> i + 1 \<Longrightarrow> i < length xs \<Longrightarrow> length (window L i xs) = L"
  by (simp add: window_def)

lemma window_map: "window L i (map f xs) = map f (window L i xs)"
  by (simp add: window_def take_map drop_map)

lemma foldl_fl_add_Fin: "foldl fl_add (Fin a) (map Fin rs) = Fin (a + sum_list rs)"
  by (induction rs arbitrary: a) (simp_all add: add.assoc)

lemma fl_sum_Fin: "fl_sum (map Fin rs) = Fin (sum_list rs)"
  by (simp add: fl_sum_def foldl_fl_add_Fin)

lemma finite_values_Fin: "finite_values (map Fin rs) = Some rs"
  by (induction rs) simp_all

lemma NaN_notin_Fin: "NaN \<notin> set (map Fin rs)"
  by auto

lemma length_rolling [simp]: "length (rolling L f xs) = length xs"
  by (simp add: rolling_def)

lemma rolling_nth:
  "i < length xs \<Longrightarrow>
   rolling L f xs ! i =
     (if L = 0 \<or> i + 1 < L \<or> NaN \<in> set (window L i xs) then NaN else f (window L i xs))"
  by (simp add: rolling_def)

lemma rolling_mean_Fin:
  assumes "i < length rs"
  shows "rolling_mean L (map Fin rs) ! i =
           (if L = 0 \<or> i + 1 < L then NaN else Fin (mean (last_values L i rs)))"
proof (cases "L = 0 \<or> i + 1 < L")
  case True
  with assms show ?thesis by (auto simp add: rolling_mean_def rolling_nth)
next
  case False
  then have L: "L \<le> i + 1" "L \<noteq> 0" by auto
  have w: "window L i (map Fin rs) = map Fin (last_values L i rs)"
    using L assms by (simp add: window_map window_last_values)
  have len: "length (last_values L i rs) = L"
    using L assms by (simp add: last_values_def del: upt_Suc)
  show ?thesis
    using assms False L(2)
    by (simp add: rolling_mean_def rolling_nth w NaN_notin_Fin window_mean_def fl_sum_Fin len
        mean_def del: set_map)
qed

lemma rolling_std_Fin:
  assumes "i < length rs"
  shows "rolling_std L (map Fin rs) ! i =
           (if L \<le> 1 \<or> i + 1 < L then NaN else Fin (sample_std (last_values L i rs)))"
proof (cases "L = 0 \<or> i + 1 < L")
  case True
  with assms show ?thesis by (auto simp add: rolling_std_def rolling_nth)
next
  case False
  then have L: "L \<le> i + 1" "L \<noteq> 0" by auto
  have w: "window L i (map Fin rs) = map Fin (last_values L i rs)"
    using L assms by (simp add: window_map window_last_values)
  have len: "length (last_values L i rs) = L"
    using L assms by (simp add: last_values_def del: upt_Suc)
  show ?thesis
    using assms False L(2)
    by (auto simp add: rolling_std_def rolling_nth w NaN_notin_Fin window_std_def
        finite_values_Fin len sample_std_def simp del: set_map)
qed

lemma length_closes [simp]: "length (closes bs) = length bs"
  by (simp add: closes_def)

lemma frame_close: "frame_of_bars bs ''close'' = Some (map Fin (closes bs))"
  by (simp add: frame_of_bars_def closes_def)

lemma length_highs [simp]: "length (highs bs) = length bs"
  by (simp add: highs_def)

lemma length_lows [simp]: "length (lows bs) = length bs"
  by (simp add: lows_def)

lemma length_true_ranges [simp]: "length (true_ranges bs) = length bs"
  by (simp add: true_ranges_def)

lemma frame_high: "frame_of_bars bs ''high'' = Some (map Fin (highs bs))"
  by (simp add: frame_of_bars_def highs_def)

lemma frame_low: "frame_of_bars bs ''low'' = Some (map Fin (lows bs))"
  by (simp add: frame_of_bars_def lows_def)

lemma length_series_add [simp]: "length (series_add xs ys) = min (length xs) (length ys)"
  by (simp add: series_add_def)

lemma length_rolling_mean [simp]: "length (rolling_mean L xs) = length xs"
  by (simp add: rolling_mean_def)

lemma length_rolling_std [simp]: "length (rolling_std L xs) = length xs"
  by (simp add: rolling_std_def)

subsection \<open>Bollinger bands\<close>

lemma add_boll_cells:
  assumes "0 \<le> period" and "i < length bs"
  defines "w \<equiv> last_values (nat period) i (closes bs)"
  defines "mid \<equiv> (if period = 0 \<or> i + 1 < nat period then NaN else Fin (mean w))"
  defines "sd \<equiv> (if period \<le> 1 \<or> i + 1 < nat period then NaN else Fin (sample_std w))"
  shows "\<exists>df'. add_boll (frame_of_bars bs) period k = Returned df'
           \<and> cell df' ''boll_mid'' i = Some mid
           \<and> cell df' ''boll_std'' i = Some sd
           \<and> cell df' ''boll_up'' i = Some (fl_add mid (fl_mul (Fin (real_of_int k)) sd))
           \<and> cell df' ''boll_down'' i = Some (fl_sub mid (fl_mul (Fin (real_of_int k)) sd))"
proof -
  let ?c = "map Fin (closes bs)"
  have i: "i < length (closes bs)" using assms(2) by simp
  have m: "rolling_mean (nat period) ?c ! i = mid"
    using assms(1) by (simp add: rolling_mean_Fin [OF i] mid_def w_def)
  have s: "rolling_std (nat period) ?c ! i = sd"
    using assms(1) by (auto simp add: rolling_std_Fin [OF i] sd_def w_def)
  show ?thesis
    using assms(1,2) m s
    by (simp add: add_boll_def frame_close Let_def cell_def series_add_def series_sub_def)
qed

lemma last_values_012: "last_values 3 2 [0, 1, 2] = [0, 1, 2]"
  by (simp add: last_values_def numeral_3_eq_3 numeral_2_eq_2)

lemma stats_012:
  "mean [0, 1, 2] = 1" "sum_sq_dev [0, 1, 2] = 2" "sample_std [0, 1, 2] = 1"
  "population_std [0, 1, 2] = sqrt (2 / 3)"
  by (simp_all add: mean_def sum_sq_dev_def sample_std_def population_std_def power2_eq_square)

text \<open>
  C1, as the code has it. For a bar series, a period of at least 2 and every row \<open>i\<close> that
  ends a full window, \<^verbatim>\<open>boll_mid\<close> is the mean of the last \<open>period\<close> closes,
  \<^verbatim>\<open>boll_std\<close> is their sample standard deviation (the squared deviations divided by
  \<open>period - 1\<close>), \<^verbatim>\<open>boll_up\<close> is \<open>mid + k * std\<close> and \<^verbatim>\<open>boll_down\<close> is
  \<open>mid - k * std\<close>.
\<close>

theorem bollinger_sample_std:
  assumes "2 \<le> period" and "nat period \<le> i + 1" and "i < length bs"
  defines "w \<equiv> last_values (nat period) i (closes bs)"
  shows "\<exists>df'. add_boll (frame_of_bars bs) period k = Returned df'
           \<and> cell df' ''boll_mid'' i = Some (Fin (mean w))
           \<and> cell df' ''boll_std'' i = Some (Fin (sample_std w))
           \<and> cell df' ''boll_up'' i = Some (Fin (mean w + real_of_int k * sample_std w))
           \<and> cell df' ''boll_down'' i = Some (Fin (mean w - real_of_int k * sample_std w))"
proof -
  have p: "0 \<le> period" "\<not> (period = 0 \<or> i + 1 < nat period)"
    "\<not> (period \<le> 1 \<or> i + 1 < nat period)"
    using assms(1,2) by auto
  from add_boll_cells [OF p(1) assms(3), of k] p(2,3) show ?thesis
    by (simp add: w_def fl_sub_def)
qed

theorem bollinger_sample_std_witness:
  "cell (state_of (add_boll (frame_of_bars bars_012) 3 2)) ''boll_mid'' 2 = Some (Fin 1)
   \<and> cell (state_of (add_boll (frame_of_bars bars_012) 3 2)) ''boll_std'' 2 = Some (Fin 1)
   \<and> cell (state_of (add_boll (frame_of_bars bars_012) 3 2)) ''boll_up'' 2 = Some (Fin 3)
   \<and> cell (state_of (add_boll (frame_of_bars bars_012) 3 2)) ''boll_down'' 2 = Some (Fin (- 1))"
proof -
  have c: "closes bars_012 = [0, 1, 2]"
    by (simp add: closes_def bars_012_def day_bar_def)
  have l: "(2::nat) < length bars_012" by (simp add: bars_012_def)
  from bollinger_sample_std [of 3 2 bars_012 2, OF _ _ l] show ?thesis
    by (auto simp add: c last_values_012 stats_012)
qed

text \<open>
  The population standard deviation that the specification names is not what the column
  holds: on the closes 0, 1, 2 with period 3 the column has 1 (the upper band 3), the
  population value is the square root of 2/3.
\<close>

theorem bollinger_population_std_counterexample:
  "cell (state_of (add_boll (frame_of_bars bars_012) 3 2)) ''boll_std'' 2 = Some (Fin 1)
   \<and> cell (state_of (add_boll (frame_of_bars bars_012) 3 2)) ''boll_up'' 2 = Some (Fin 3)
   \<and> population_std (last_values 3 2 (closes bars_012)) \<noteq> 1
   \<and> cell (state_of (add_boll (frame_of_bars bars_012) 3 2)) ''boll_std'' 2
       \<noteq> Some (Fin (population_std (last_values 3 2 (closes bars_012))))"
proof -
  have c: "closes bars_012 = [0, 1, 2]"
    by (simp add: closes_def bars_012_def day_bar_def)
  have l: "(2::nat) < length bars_012" by (simp add: bars_012_def)
  have p: "population_std [0, 1, 2] \<noteq> 1"
    by (simp add: stats_012)
  from add_boll_cells [of 3 2 bars_012 2, OF _ l] p show ?thesis
    by (auto simp add: c last_values_012 stats_012)
qed

subsection \<open>Average true range\<close>

lemma length_true_range:
  "length hi = n \<Longrightarrow> length lo = n \<Longrightarrow> length c = n \<Longrightarrow> length (true_range hi lo c) = n"
  by (simp add: true_range_def row_max_def np_abs_def Let_def)

lemma nanmax2_Fin: "nanmax2 (Fin a) (Fin b) = Fin (max a b)"
  by (simp add: nanmax2_def max_def)

lemma nanmax2_NaN: "nanmax2 x NaN = x"
  by (simp add: nanmax2_def)

lemma true_range_nth:
  assumes "t < length bs"
  shows "true_range (map Fin (highs bs)) (map Fin (lows bs)) (map Fin (closes bs)) ! t =
           Fin (tr_at bs t)"
proof (cases "t = 0")
  case True
  with assms show ?thesis
    by (simp add: true_range_def row_max_def np_abs_def series_sub_def Let_def shift_nth
        fl_sub_def nanmax2_NaN tr_at_def highs_def lows_def closes_def)
next
  case False
  with assms show ?thesis
    by (simp add: true_range_def row_max_def np_abs_def series_sub_def Let_def shift_nth
        fl_sub_def nanmax2_Fin tr_at_def highs_def lows_def closes_def max.assoc)
qed

lemma true_range_series:
  "true_range (map Fin (highs bs)) (map Fin (lows bs)) (map Fin (closes bs)) =
     map Fin (true_ranges bs)"
proof (rule nth_equalityI)
  show "length (true_range (map Fin (highs bs)) (map Fin (lows bs)) (map Fin (closes bs))) =
          length (map Fin (true_ranges bs))"
    by (simp add: length_true_range [of _ "length bs"])
next
  fix t assume "t < length (true_range (map Fin (highs bs)) (map Fin (lows bs)) (map Fin (closes bs)))"
  then have "t < length bs" by (simp add: length_true_range [of _ "length bs"])
  then show "true_range (map Fin (highs bs)) (map Fin (lows bs)) (map Fin (closes bs)) ! t =
          map Fin (true_ranges bs) ! t"
    by (simp add: true_range_nth true_ranges_def)
qed

text \<open>
  C9. On the columns of a bar series the true range of row 0 is the bar's high minus its
  low; of every later row the largest of high minus low, the distance of the high from the
  previous close and the distance of the low from the previous close. The ATR column of a
  period is NaN on the rows before the first full window (and everywhere for period 0), and
  on every other row the mean of the last \<open>period\<close> true ranges.
\<close>

theorem atr_is_rolling_mean_of_true_range:
  assumes "i < length bs" and "0 \<le> period"
  shows "true_range (map Fin (highs bs)) (map Fin (lows bs)) (map Fin (closes bs)) ! 0 =
           Fin (high_price (bs ! 0) - low_price (bs ! 0))
       \<and> (0 < i \<longrightarrow>
            true_range (map Fin (highs bs)) (map Fin (lows bs)) (map Fin (closes bs)) ! i =
              Fin (max (high_price (bs ! i) - low_price (bs ! i))
                     (max \<bar>high_price (bs ! i) - close_price (bs ! (i - 1))\<bar>
                          \<bar>low_price (bs ! i) - close_price (bs ! (i - 1))\<bar>)))
       \<and> (\<exists>df'. add_atr (frame_of_bars bs) period = Returned df'
             \<and> cell df' (atr_name period) i =
                 Some (if period = 0 \<or> i + 1 < nat period then NaN
                       else Fin (mean (last_values (nat period) i (true_ranges bs)))))"
proof -
  have z: "0 < length bs" using assms(1) by (cases bs) simp_all
  have i: "i < length (true_ranges bs)" using assms(1) by simp
  show ?thesis
    using assms true_range_nth [OF z] true_range_nth [OF assms(1)]
    by (simp add: tr_at_def add_atr_def frame_high frame_low frame_close cell_def
        true_range_series rolling_mean_Fin [OF i])
qed

theorem atr_is_rolling_mean_of_true_range_witness:
  "true_range (map Fin (highs [bar_94, bar_107])) (map Fin (lows [bar_94, bar_107]))
     (map Fin (closes [bar_94, bar_107])) = [Fin 16, Fin 19]
   \<and> cell (state_of (add_atr (frame_of_bars [bar_94, bar_107]) 2)) (atr_name 2) 0 = Some NaN
   \<and> cell (state_of (add_atr (frame_of_bars [bar_94, bar_107]) 2)) (atr_name 2) 1
       = Some (Fin (35 / 2))"
proof -
  have t: "true_ranges [bar_94, bar_107] = [16, 19]"
    by (simp add: true_ranges_def tr_at_def bar_94_def bar_107_def)
  have l: "last_values 2 (Suc 0) [16, 19] = [16, 19]"
    by (simp add: last_values_def numeral_2_eq_2)
  from atr_is_rolling_mean_of_true_range [of 0 "[bar_94, bar_107]" 2]
    atr_is_rolling_mean_of_true_range [of 1 "[bar_94, bar_107]" 2]
  show ?thesis
    by (auto simp add: t l mean_def true_range_series)
qed

subsection \<open>Column names are injective\<close>

lemma digit_char_inj:
  assumes "a < 10" and "b < 10" and "digit_char a = digit_char b"
  shows "a = b"
proof -
  have cases10: "\<And>n::nat. n < 10 \<Longrightarrow> n \<in> {0, 1, 2, 3, 4, 5, 6, 7, 8, 9}"
    by auto
  from cases10 [OF assms(1)] cases10 [OF assms(2)] assms(3) show ?thesis
    by (auto simp add: digit_char_def)
qed

lemma string_of_nat_nonempty: "string_of_nat n \<noteq> []"
  by (subst string_of_nat.simps) simp

lemma string_of_nat_inj: "string_of_nat n = string_of_nat m \<Longrightarrow> n = m"
proof (induction n arbitrary: m rule: string_of_nat.induct)
  case (1 n)
  show ?case
  proof (cases "n < 10")
    case small_n: True
    show ?thesis
    proof (cases "m < 10")
      case True
      with small_n "1.prems" show ?thesis
        by (simp add: string_of_nat.simps [of n] string_of_nat.simps [of m] digit_char_inj)
    next
      case False
      have "string_of_nat n = [digit_char n]"
        using small_n by (subst string_of_nat.simps) simp
      moreover have "string_of_nat m = string_of_nat (m div 10) @ [digit_char (m mod 10)]"
        using False by (subst string_of_nat.simps) simp
      ultimately have "string_of_nat (m div 10) = []"
        using "1.prems" by (metis append_is_Nil_conv butlast.simps(2) butlast_snoc list.discI)
      then show ?thesis by (simp add: string_of_nat_nonempty)
    qed
  next
    case big_n: False
    have n: "string_of_nat n = string_of_nat (n div 10) @ [digit_char (n mod 10)]"
      using big_n by (subst string_of_nat.simps) simp
    show ?thesis
    proof (cases "m < 10")
      case True
      have "string_of_nat m = [digit_char m]"
        using True by (subst string_of_nat.simps) simp
      with n "1.prems" have "string_of_nat (n div 10) = []"
        by (metis append_is_Nil_conv butlast.simps(2) butlast_snoc list.discI)
      then show ?thesis by (simp add: string_of_nat_nonempty)
    next
      case False
      have m: "string_of_nat m = string_of_nat (m div 10) @ [digit_char (m mod 10)]"
        using False by (subst string_of_nat.simps) simp
      from n m "1.prems" have e: "string_of_nat (n div 10) = string_of_nat (m div 10)"
        and d: "digit_char (n mod 10) = digit_char (m mod 10)"
        by simp_all
      from "1.IH" [OF big_n e] have q: "n div 10 = m div 10" .
      from d have r: "n mod 10 = m mod 10"
        by (intro digit_char_inj) simp_all
      from q r show ?thesis
        by (metis div_mult_mod_eq)
    qed
  qed
qed

lemma string_of_int_inj:
  "0 \<le> a \<Longrightarrow> 0 \<le> b \<Longrightarrow> string_of_int a = string_of_int b \<Longrightarrow> a = b"
  using string_of_nat_inj [of "nat a" "nat b"] by (simp add: string_of_int_def)

lemma ma_name_inj: "0 \<le> a \<Longrightarrow> 0 \<le> b \<Longrightarrow> ma_name a = ma_name b \<Longrightarrow> a = b"
  by (simp add: ma_name_def string_of_int_inj)

lemma rsi_name_inj: "0 \<le> a \<Longrightarrow> 0 \<le> b \<Longrightarrow> rsi_name a = rsi_name b \<Longrightarrow> a = b"
  by (simp add: rsi_name_def string_of_int_inj)

subsection \<open>Relative strength index\<close>

lemma length_gains [simp]: "length (gains cs) = length cs"
  by (simp add: gains_def)

lemma length_losses [simp]: "length (losses cs) = length cs"
  by (simp add: losses_def)

lemma diff_Fin_nth:
  "t < length cs \<Longrightarrow>
   diff (map Fin cs) ! t = (if t = 0 then NaN else Fin (cs ! t - cs ! (t - 1)))"
  by (simp add: diff_def series_sub_def shift_nth fl_sub_def)

lemma length_diff [simp]: "length (diff xs) = length xs"
  by (simp add: diff_def)

lemma rsi_gain_Fin: "rsi_gain (map Fin cs) = map Fin (gains cs)"
proof (rule nth_equalityI)
  show "length (rsi_gain (map Fin cs)) = length (map Fin (gains cs))"
    by (simp add: rsi_gain_def where_series_def Let_def)
next
  fix t assume "t < length (rsi_gain (map Fin cs))"
  then have t: "t < length cs"
    by (simp add: rsi_gain_def where_series_def Let_def)
  then show "rsi_gain (map Fin cs) ! t = map Fin (gains cs) ! t"
    by (simp add: rsi_gain_def where_series_def Let_def diff_Fin_nth fl_gt_def gains_def
        gain_at_def max_def)
qed

lemma rsi_loss_Fin: "rsi_loss (map Fin cs) = map Fin (losses cs)"
proof (rule nth_equalityI)
  show "length (rsi_loss (map Fin cs)) = length (map Fin (losses cs))"
    by (simp add: rsi_loss_def where_series_def series_neg_def Let_def)
next
  fix t assume "t < length (rsi_loss (map Fin cs))"
  then have t: "t < length cs"
    by (simp add: rsi_loss_def where_series_def series_neg_def Let_def)
  then show "rsi_loss (map Fin cs) ! t = map Fin (losses cs) ! t"
    by (simp add: rsi_loss_def where_series_def series_neg_def Let_def diff_Fin_nth
        losses_def loss_at_def max_def)
qed

lemma mean_nonneg: "(\<And>x. x \<in> set rs \<Longrightarrow> 0 \<le> x) \<Longrightarrow> 0 \<le> mean rs"
  by (simp add: mean_def sum_list_nonneg)

lemma set_last_values:
  "L \<le> i + 1 \<Longrightarrow> i < length rs \<Longrightarrow> set (last_values L i rs) \<subseteq> set rs"
  by (auto simp add: last_values_def simp del: upt_Suc)

lemma gains_nonneg: "x \<in> set (gains cs) \<Longrightarrow> 0 \<le> x"
  by (auto simp add: gains_def gain_at_def)

lemma losses_nonneg: "x \<in> set (losses cs) \<Longrightarrow> 0 \<le> x"
  by (auto simp add: losses_def loss_at_def)

lemma avg_gain_nonneg: "L \<le> i + 1 \<Longrightarrow> i < length cs \<Longrightarrow> 0 \<le> avg_gain L i cs"
  unfolding avg_gain_def
  by (rule mean_nonneg) (use set_last_values [of L i "gains cs"] gains_nonneg in auto)

lemma avg_loss_nonneg: "L \<le> i + 1 \<Longrightarrow> i < length cs \<Longrightarrow> 0 \<le> avg_loss L i cs"
  unfolding avg_loss_def
  by (rule mean_nonneg) (use set_last_values [of L i "losses cs"] losses_nonneg in auto)

lemma rsi_of_rs_infinite: "rsi_of_rs PInf = Fin 100" "rsi_of_rs NInf = Fin 100"
  by (simp_all add: rsi_of_rs_def fl_sub_def)

lemma rsi_series_nth:
  assumes "i < length cs"
  shows "rsi_series L (map Fin cs) ! i = rsi_at L i cs"
proof (cases "L = 0 \<or> i + 1 < L")
  case True
  have g: "i < length (gains cs)" and l: "i < length (losses cs)" using assms by simp_all
  from True assms show ?thesis
    by (simp add: rsi_series_def Let_def rsi_gain_Fin rsi_loss_Fin series_div_def
        rolling_mean_Fin [OF g] rolling_mean_Fin [OF l] rsi_at_def rsi_of_rs_def fl_sub_def)
next
  case False
  then have L: "L \<le> i + 1" by simp
  have g: "i < length (gains cs)" and l: "i < length (losses cs)" using assms by simp_all
  have gn: "0 \<le> avg_gain L i cs" and ln: "0 \<le> avg_loss L i cs"
    using L assms by (simp_all add: avg_gain_nonneg avg_loss_nonneg)
  have rs: "series_div (rolling_mean L (rsi_gain (map Fin cs)))
              (rolling_mean L (rsi_loss (map Fin cs))) ! i =
            fl_div (Fin (avg_gain L i cs)) (Fin (avg_loss L i cs))"
    using False assms
    by (simp add: rsi_gain_Fin rsi_loss_Fin series_div_def rolling_mean_Fin [OF g]
        rolling_mean_Fin [OF l] avg_gain_def avg_loss_def)
  have len: "i < length (series_div (rolling_mean L (rsi_gain (map Fin cs)))
              (rolling_mean L (rsi_loss (map Fin cs))))"
    using assms by (simp add: rsi_gain_Fin rsi_loss_Fin series_div_def)
  have "rsi_series L (map Fin cs) ! i =
          rsi_of_rs (fl_div (Fin (avg_gain L i cs)) (Fin (avg_loss L i cs)))"
    using len rs by (simp add: rsi_series_def Let_def)
  also have "\<dots> = rsi_at L i cs"
  proof (cases "avg_loss L i cs = 0")
    case True
    with gn False show ?thesis
      by (auto simp add: rsi_at_def rsi_of_rs_def fl_sub_def)
  next
    case nz: False
    have "0 \<le> avg_gain L i cs / avg_loss L i cs"
      using gn ln by simp
    then have "1 + avg_gain L i cs / avg_loss L i cs \<noteq> 0" by linarith
    with nz False show ?thesis
      by (simp add: rsi_at_def rsi_of_rs_def fl_sub_def)
  qed
  finally show ?thesis .
qed

lemma rsi_at_range:
  assumes "i < length cs"
  shows "rsi_at L i cs = NaN \<or> (\<exists>r. rsi_at L i cs = Fin r \<and> 0 \<le> r \<and> r \<le> 100)"
proof (cases "L = 0 \<or> i + 1 < L")
  case True
  then show ?thesis by (simp add: rsi_at_def)
next
  case False
  then have L: "L \<le> i + 1" by simp
  have gn: "0 \<le> avg_gain L i cs" and ln: "0 \<le> avg_loss L i cs"
    using L assms by (simp_all add: avg_gain_nonneg avg_loss_nonneg)
  show ?thesis
  proof (cases "avg_loss L i cs = 0")
    case True
    then show ?thesis by (simp add: rsi_at_def)
  next
    case nz: False
    have q: "0 \<le> avg_gain L i cs / avg_loss L i cs"
      using gn ln by simp
    then have "0 < 1 + avg_gain L i cs / avg_loss L i cs" by linarith
    moreover have "1 \<le> 1 + avg_gain L i cs / avg_loss L i cs" using q by linarith
    ultimately have "100 / (1 + avg_gain L i cs / avg_loss L i cs) \<le> 100"
      "0 \<le> 100 / (1 + avg_gain L i cs / avg_loss L i cs)"
      by (simp_all add: divide_le_eq)
    with nz False show ?thesis by (simp add: rsi_at_def)
  qed
qed

lemma rsi_at_100_iff:
  assumes "i < length cs" and "0 < L" and "L \<le> i + 1"
  shows "rsi_at L i cs = Fin 100 \<longleftrightarrow> avg_loss L i cs = 0 \<and> 0 < avg_gain L i cs"
proof -
  have gn: "0 \<le> avg_gain L i cs" and ln: "0 \<le> avg_loss L i cs"
    using assms by (simp_all add: avg_gain_nonneg avg_loss_nonneg)
  show ?thesis
  proof (cases "avg_loss L i cs = 0")
    case True
    with gn assms show ?thesis by (auto simp add: rsi_at_def)
  next
    case nz: False
    have q: "0 \<le> avg_gain L i cs / avg_loss L i cs"
      using gn ln by simp
    then have "0 < 1 + avg_gain L i cs / avg_loss L i cs" by linarith
    then have "0 < 100 / (1 + avg_gain L i cs / avg_loss L i cs)" by simp
    with nz assms show ?thesis by (simp add: rsi_at_def)
  qed
qed

subsection \<open>The loops over periods\<close>

lemma ma_name_not_close: "ma_name p \<noteq> ''close''"
  by (simp add: ma_name_def)

lemma rsi_name_not_close: "rsi_name p \<noteq> ''close''"
  by (simp add: rsi_name_def)

lemma add_ma_columns:
  assumes "\<forall>p\<in>set periods. 0 \<le> p" and "df ''close'' = Some c"
  shows "\<exists>df'. add_ma df periods = Returned df' \<and> df' ''close'' = Some c
           \<and> (\<forall>L\<in>set periods. df' (ma_name L) = Some (rolling_mean (nat L) c))
           \<and> (\<forall>name. name \<notin> ma_name ` set periods \<longrightarrow> df' name = df name)"
  using assms
proof (induction periods arbitrary: df)
  case Nil
  then show ?case by simp
next
  case (Cons p ps)
  let ?df1 = "df(ma_name p \<mapsto> rolling_mean (nat p) c)"
  have p0: "0 \<le> p" and ps0: "\<forall>q\<in>set ps. 0 \<le> q" using Cons.prems(1) by simp_all
  have c1: "?df1 ''close'' = Some c"
    using Cons.prems(2) ma_name_not_close [of p] by simp
  from Cons.IH [of ?df1, OF ps0 c1] obtain df' where d:
    "add_ma ?df1 ps = Returned df'" "df' ''close'' = Some c"
    "\<forall>L\<in>set ps. df' (ma_name L) = Some (rolling_mean (nat L) c)"
    "\<forall>name. name \<notin> ma_name ` set ps \<longrightarrow> df' name = ?df1 name"
    by blast
  have r: "add_ma df (p # ps) = Returned df'"
    using Cons.prems(2) p0 d(1) by simp
  have here: "df' (ma_name p) = Some (rolling_mean (nat p) c)"
  proof (cases "ma_name p \<in> ma_name ` set ps")
    case True
    then obtain q where q: "q \<in> set ps" "ma_name p = ma_name q" by blast
    with ps0 p0 have "p = q" by (simp add: ma_name_inj)
    with q(1) d(3) show ?thesis by simp
  next
    case False
    with d(4) show ?thesis by simp
  qed
  have rest: "\<forall>name. name \<notin> ma_name ` set (p # ps) \<longrightarrow> df' name = df name"
    using d(4) by simp
  from r d(2) d(3) here rest show ?case by simp
qed

lemma add_rsi_columns:
  assumes "\<forall>p\<in>set periods. 0 \<le> p" and "df ''close'' = Some c"
  shows "\<exists>df'. add_rsi df periods = Returned df' \<and> df' ''close'' = Some c
           \<and> (\<forall>L\<in>set periods. df' (rsi_name L) = Some (rsi_series (nat L) c))
           \<and> (\<forall>name. name \<notin> rsi_name ` set periods \<longrightarrow> df' name = df name)"
  using assms
proof (induction periods arbitrary: df)
  case Nil
  then show ?case by simp
next
  case (Cons p ps)
  let ?df1 = "df(rsi_name p \<mapsto> rsi_series (nat p) c)"
  have p0: "0 \<le> p" and ps0: "\<forall>q\<in>set ps. 0 \<le> q" using Cons.prems(1) by simp_all
  have c1: "?df1 ''close'' = Some c"
    using Cons.prems(2) rsi_name_not_close [of p] by simp
  from Cons.IH [of ?df1, OF ps0 c1] obtain df' where d:
    "add_rsi ?df1 ps = Returned df'" "df' ''close'' = Some c"
    "\<forall>L\<in>set ps. df' (rsi_name L) = Some (rsi_series (nat L) c)"
    "\<forall>name. name \<notin> rsi_name ` set ps \<longrightarrow> df' name = ?df1 name"
    by blast
  have r: "add_rsi df (p # ps) = Returned df'"
    using Cons.prems(2) p0 d(1) by simp
  have here: "df' (rsi_name p) = Some (rsi_series (nat p) c)"
  proof (cases "rsi_name p \<in> rsi_name ` set ps")
    case True
    then obtain q where q: "q \<in> set ps" "rsi_name p = rsi_name q" by blast
    with ps0 p0 have "p = q" by (simp add: rsi_name_inj)
    with q(1) d(3) show ?thesis by simp
  next
    case False
    with d(4) show ?thesis by simp
  qed
  have rest: "\<forall>name. name \<notin> rsi_name ` set (p # ps) \<longrightarrow> df' name = df name"
    using d(4) by simp
  from r d(2) d(3) here rest show ?case by simp
qed

lemma length_rsi_series [simp]: "length (rsi_series L (map Fin cs)) = length cs"
  by (simp add: rsi_series_def Let_def rsi_gain_Fin rsi_loss_Fin series_div_def)

lemma add_ma_cells:
  assumes "\<forall>p\<in>set periods. 0 \<le> p" and "L \<in> set periods" and "i < length bs"
  shows "\<exists>df'. add_ma (frame_of_bars bs) periods = Returned df'
           \<and> cell df' (ma_name L) i =
               Some (if L = 0 \<or> i + 1 < nat L then NaN
                     else Fin (mean (last_values (nat L) i (closes bs))))"
proof -
  from add_ma_columns [where df = "frame_of_bars bs", OF assms(1) frame_close] assms(2)
  obtain df' where d: "add_ma (frame_of_bars bs) periods = Returned df'"
    "df' (ma_name L) = Some (rolling_mean (nat L) (map Fin (closes bs)))"
    by blast
  have i: "i < length (closes bs)" using assms(3) by simp
  have "0 \<le> L" using assms(1,2) by simp
  then show ?thesis
    using d assms(3) by (simp add: cell_def rolling_mean_Fin [OF i])
qed

lemma add_rsi_cells:
  assumes "\<forall>p\<in>set periods. 0 \<le> p" and "L \<in> set periods" and "i < length bs"
  shows "\<exists>df'. add_rsi (frame_of_bars bs) periods = Returned df'
           \<and> cell df' (rsi_name L) i = Some (rsi_at (nat L) i (closes bs))"
proof -
  from add_rsi_columns [where df = "frame_of_bars bs", OF assms(1) frame_close] assms(2)
  obtain df' where d: "add_rsi (frame_of_bars bs) periods = Returned df'"
    "df' (rsi_name L) = Some (rsi_series (nat L) (map Fin (closes bs)))"
    by blast
  have i: "i < length (closes bs)" using assms(3) by simp
  show ?thesis
    using d assms(3) by (simp add: cell_def rsi_series_nth [OF i])
qed

lemma add_atr_cells:
  assumes "i < length bs" and "0 \<le> period"
  shows "\<exists>df'. add_atr (frame_of_bars bs) period = Returned df'
           \<and> cell df' (atr_name period) i =
               Some (if period = 0 \<or> i + 1 < nat period then NaN
                     else Fin (mean (last_values (nat period) i (true_ranges bs))))"
proof -
  have i: "i < length (true_ranges bs)" using assms(1) by simp
  show ?thesis
    using assms
    by (simp add: add_atr_def frame_high frame_low frame_close cell_def
        true_range_series rolling_mean_Fin [OF i])
qed

lemma closes_012: "closes bars_012 = [0, 1, 2]"
  by (simp add: closes_def bars_012_def day_bar_def)

lemma closes_flat: "closes bars_flat = [10, 10, 10]"
  by (simp add: closes_def bars_flat_def day_bar_def)

text \<open>
  C5. For a list of periods that the library accepts, a period \<open>L\<close> of the list and every
  row \<open>i\<close> of a bar series, \<^verbatim>\<open>add_rsi\<close> returns and the cell of the RSI column is NaN
  or a finite value between 0 and 100, never an infinity. On a row that ends a full window
  (\<open>L \<ge> 1\<close>, \<open>i \<ge> L - 1\<close>) the cell is 100 exactly when the average loss of the window is
  0 and its average gain is positive: the division by the zero average loss gives an
  infinite \<open>rs\<close> and no error (\<open>rsi_of_rs\<close> maps either infinity to 100).
\<close>

theorem rsi_degenerate_and_bounded:
  assumes "\<forall>p\<in>set periods. 0 \<le> p" and "L \<in> set periods" and "i < length bs"
  shows "\<exists>df' v. add_rsi (frame_of_bars bs) periods = Returned df'
           \<and> cell df' (rsi_name L) i = Some v
           \<and> (1 \<le> L \<and> nat L \<le> i + 1 \<longrightarrow>
                (v = Fin 100 \<longleftrightarrow>
                   avg_loss (nat L) i (closes bs) = 0 \<and> 0 < avg_gain (nat L) i (closes bs)))
           \<and> (v = NaN \<or> (\<exists>r. v = Fin r \<and> 0 \<le> r \<and> r \<le> 100))"
proof -
  from add_rsi_cells [OF assms] obtain df' where d:
    "add_rsi (frame_of_bars bs) periods = Returned df'"
    "cell df' (rsi_name L) i = Some (rsi_at (nat L) i (closes bs))"
    by blast
  have i: "i < length (closes bs)" using assms(3) by simp
  have a: "1 \<le> L \<and> nat L \<le> i + 1 \<longrightarrow>
             (rsi_at (nat L) i (closes bs) = Fin 100 \<longleftrightarrow>
                avg_loss (nat L) i (closes bs) = 0 \<and> 0 < avg_gain (nat L) i (closes bs))"
    using rsi_at_100_iff [OF i, of "nat L"] by simp
  from d a rsi_at_range [OF i, of "nat L"] show ?thesis by blast
qed

theorem rsi_degenerate_and_bounded_witness:
  "cell (state_of (add_rsi (frame_of_bars bars_012) [2])) (rsi_name 2) 1 = Some (Fin 100)
   \<and> avg_loss 2 1 (closes bars_012) = 0 \<and> avg_gain 2 1 (closes bars_012) = 1 / 2"
proof -
  have c: "closes bars_012 = [0, 1, 2]"
    by (simp add: closes_def bars_012_def day_bar_def)
  have g: "gains [0, 1, 2] = [0, 1, 1]" "losses [0, 1, 2] = [0, 0, 0]"
    by (simp_all add: gains_def losses_def gain_at_def loss_at_def)
  have l: "last_values 2 (Suc 0) [0, 1, 1] = [0, 1]" "last_values 2 (Suc 0) [0, 0, 0] = [0, 0]"
    by (simp_all add: last_values_def numeral_2_eq_2)
  have a: "avg_loss 2 (Suc 0) [0, 1, 2] = 0" "avg_gain 2 (Suc 0) [0, 1, 2] = 1 / 2"
    by (simp_all add: avg_loss_def avg_gain_def g l mean_def)
  have h: "\<forall>p\<in>set [2::int]. 0 \<le> p" "(2::int) \<in> set [2]" "1 < length bars_012"
    by (simp_all add: bars_012_def)
  from rsi_degenerate_and_bounded [OF h] show ?thesis
    by (auto simp add: c a)
qed

subsection \<open>Warm-up rows\<close>

text \<open>
  C2, as the code has it. For a lookback \<open>L \<ge> 1\<close> and every row \<open>i\<close> of a bar series:
  the moving average, the ATR and the Bollinger middle band are NaN when \<open>i < L - 1\<close> and
  the statistic of the full window of \<open>L\<close> rows when \<open>i \<ge> L - 1\<close>. The Bollinger
  deviation and bands are NaN when \<open>i < L - 1\<close>, finite when \<open>i \<ge> L - 1\<close> and \<open>L \<ge> 2\<close>,
  and NaN in every row when \<open>L = 1\<close>. The RSI is NaN when \<open>i < L - 1\<close>; when \<open>i \<ge> L - 1\<close>
  it is NaN if the window has neither gain nor loss and finite otherwise. A series shorter
  than \<open>L\<close> has only rows \<open>i < L - 1\<close>.
\<close>

theorem warmup_definedness:
  assumes "i < length bs" and "1 \<le> L" and "\<forall>p\<in>set periods. 0 \<le> p" and "L \<in> set periods"
  shows "(\<exists>df'. add_ma (frame_of_bars bs) periods = Returned df'
            \<and> (i + 1 < nat L \<longrightarrow> cell df' (ma_name L) i = Some NaN)
            \<and> (nat L \<le> i + 1 \<longrightarrow>
                 cell df' (ma_name L) i = Some (Fin (mean (last_values (nat L) i (closes bs))))))
       \<and> (\<exists>df'. add_atr (frame_of_bars bs) L = Returned df'
            \<and> (i + 1 < nat L \<longrightarrow> cell df' (atr_name L) i = Some NaN)
            \<and> (nat L \<le> i + 1 \<longrightarrow>
                 cell df' (atr_name L) i =
                   Some (Fin (mean (last_values (nat L) i (true_ranges bs))))))
       \<and> (\<exists>df'. add_boll (frame_of_bars bs) L k = Returned df'
            \<and> (i + 1 < nat L \<longrightarrow>
                 cell df' ''boll_mid'' i = Some NaN \<and> cell df' ''boll_std'' i = Some NaN
                 \<and> cell df' ''boll_up'' i = Some NaN \<and> cell df' ''boll_down'' i = Some NaN)
            \<and> (nat L \<le> i + 1 \<longrightarrow>
                 cell df' ''boll_mid'' i = Some (Fin (mean (last_values (nat L) i (closes bs))))
                 \<and> (2 \<le> L \<longrightarrow>
                      (\<exists>s u d. cell df' ''boll_std'' i = Some (Fin s)
                         \<and> cell df' ''boll_up'' i = Some (Fin u)
                         \<and> cell df' ''boll_down'' i = Some (Fin d)))
                 \<and> (L = 1 \<longrightarrow>
                      cell df' ''boll_std'' i = Some NaN \<and> cell df' ''boll_up'' i = Some NaN
                      \<and> cell df' ''boll_down'' i = Some NaN)))
       \<and> (\<exists>df'. add_rsi (frame_of_bars bs) periods = Returned df'
            \<and> (i + 1 < nat L \<longrightarrow> cell df' (rsi_name L) i = Some NaN)
            \<and> (nat L \<le> i + 1 \<longrightarrow>
                 (if avg_gain (nat L) i (closes bs) = 0 \<and> avg_loss (nat L) i (closes bs) = 0
                  then cell df' (rsi_name L) i = Some NaN
                  else \<exists>r. cell df' (rsi_name L) i = Some (Fin r))))"
proof -
  have L0: "0 \<le> L" "L \<noteq> 0" using assms(2) by simp_all
  have ma: "\<exists>df'. add_ma (frame_of_bars bs) periods = Returned df'
            \<and> (i + 1 < nat L \<longrightarrow> cell df' (ma_name L) i = Some NaN)
            \<and> (nat L \<le> i + 1 \<longrightarrow>
                 cell df' (ma_name L) i = Some (Fin (mean (last_values (nat L) i (closes bs)))))"
    using add_ma_cells [OF assms(3,4,1)] L0 by auto
  have atr: "\<exists>df'. add_atr (frame_of_bars bs) L = Returned df'
            \<and> (i + 1 < nat L \<longrightarrow> cell df' (atr_name L) i = Some NaN)
            \<and> (nat L \<le> i + 1 \<longrightarrow>
                 cell df' (atr_name L) i =
                   Some (Fin (mean (last_values (nat L) i (true_ranges bs)))))"
    using add_atr_cells [OF assms(1) L0(1)] L0 by auto
  have boll: "\<exists>df'. add_boll (frame_of_bars bs) L k = Returned df'
            \<and> (i + 1 < nat L \<longrightarrow>
                 cell df' ''boll_mid'' i = Some NaN \<and> cell df' ''boll_std'' i = Some NaN
                 \<and> cell df' ''boll_up'' i = Some NaN \<and> cell df' ''boll_down'' i = Some NaN)
            \<and> (nat L \<le> i + 1 \<longrightarrow>
                 cell df' ''boll_mid'' i = Some (Fin (mean (last_values (nat L) i (closes bs))))
                 \<and> (2 \<le> L \<longrightarrow>
                      (\<exists>s u d. cell df' ''boll_std'' i = Some (Fin s)
                         \<and> cell df' ''boll_up'' i = Some (Fin u)
                         \<and> cell df' ''boll_down'' i = Some (Fin d)))
                 \<and> (L = 1 \<longrightarrow>
                      cell df' ''boll_std'' i = Some NaN \<and> cell df' ''boll_up'' i = Some NaN
                      \<and> cell df' ''boll_down'' i = Some NaN))"
    using add_boll_cells [OF L0(1) assms(1), of k] L0
    by (auto simp add: fl_sub_def)
  have i: "i < length (closes bs)" using assms(1) by simp
  have gn: "nat L \<le> i + 1 \<Longrightarrow> 0 \<le> avg_gain (nat L) i (closes bs)"
    using i by (simp add: avg_gain_nonneg)
  have rsi: "\<exists>df'. add_rsi (frame_of_bars bs) periods = Returned df'
            \<and> (i + 1 < nat L \<longrightarrow> cell df' (rsi_name L) i = Some NaN)
            \<and> (nat L \<le> i + 1 \<longrightarrow>
                 (if avg_gain (nat L) i (closes bs) = 0 \<and> avg_loss (nat L) i (closes bs) = 0
                  then cell df' (rsi_name L) i = Some NaN
                  else \<exists>r. cell df' (rsi_name L) i = Some (Fin r)))"
    using add_rsi_cells [OF assms(3,4,1)] L0
    by (auto simp add: rsi_at_def)
  from ma atr boll rsi show ?thesis by blast
qed

theorem warmup_definedness_witness:
  "cell (state_of (add_ma (frame_of_bars bars_012) [2])) (ma_name 2) 0 = Some NaN
   \<and> cell (state_of (add_ma (frame_of_bars bars_012) [2])) (ma_name 2) 1 = Some (Fin (1 / 2))
   \<and> cell (state_of (add_atr (frame_of_bars bars_012) 2)) (atr_name 2) 0 = Some NaN
   \<and> cell (state_of (add_atr (frame_of_bars bars_012) 2)) (atr_name 2) 1 = Some (Fin 2)
   \<and> cell (state_of (add_boll (frame_of_bars bars_012) 2 2)) ''boll_up'' 0 = Some NaN
   \<and> cell (state_of (add_boll (frame_of_bars bars_012) 2 2)) ''boll_mid'' 1 = Some (Fin (1 / 2))
   \<and> cell (state_of (add_rsi (frame_of_bars bars_012) [2])) (rsi_name 2) 0 = Some NaN
   \<and> cell (state_of (add_rsi (frame_of_bars bars_012) [2])) (rsi_name 2) 1 \<noteq> Some NaN"
proof -
  have h: "(1::int) \<le> 2" "\<forall>p\<in>set [2::int]. 0 \<le> p" "(2::int) \<in> set [2]"
    by simp_all
  have n: "0 < length bars_012" "1 < length bars_012"
    by (simp_all add: bars_012_def)
  have t: "true_ranges bars_012 = [2, 2, 2]"
    by (simp add: true_ranges_def tr_at_def bars_012_def day_bar_def)
  have l: "last_values 2 (Suc 0) [0, 1, 2] = [0, 1]" "last_values 2 (Suc 0) [2, 2, 2] = [2, 2]"
    by (simp_all add: last_values_def numeral_2_eq_2)
  have g: "avg_gain 2 (Suc 0) [0, 1, 2] = 1 / 2"
    by (simp add: avg_gain_def gains_def gain_at_def last_values_def numeral_2_eq_2 mean_def)
  from warmup_definedness [OF n(1) h, of 2] warmup_definedness [OF n(2) h, of 2]
  show ?thesis
    by (auto simp add: closes_012 t l g mean_def)
qed

text \<open>
  The claim as the specification states it fails on rows that end a full window: on three
  bars closing at 10 the RSI over 2 is NaN in rows 1 and 2, and the Bollinger upper band
  over 1 is NaN in every row.
\<close>

theorem warmup_definedness_counterexample:
  "cell (state_of (add_rsi (frame_of_bars bars_flat) [2])) (rsi_name 2) 1 = Some NaN
   \<and> cell (state_of (add_rsi (frame_of_bars bars_flat) [2])) (rsi_name 2) 2 = Some NaN
   \<and> cell (state_of (add_boll (frame_of_bars bars_flat) 1 2)) ''boll_up'' 0 = Some NaN
   \<and> cell (state_of (add_boll (frame_of_bars bars_flat) 1 2)) ''boll_up'' 2 = Some NaN"
proof -
  have h: "\<forall>p\<in>set [2::int]. 0 \<le> p" "(2::int) \<in> set [2]"
    by simp_all
  have n: "0 < length bars_flat" "1 < length bars_flat" "2 < length bars_flat"
    by (simp_all add: bars_flat_def)
  have g: "gains [10, 10, 10] = [0, 0, 0]" "losses [10, 10, 10] = [0, 0, 0]"
    by (simp_all add: gains_def losses_def gain_at_def loss_at_def)
  have l: "last_values 2 (Suc 0) [0, 0, 0] = [0, 0]" "last_values 2 2 [0, 0, 0] = [0, 0]"
    by (simp_all add: last_values_def numeral_2_eq_2)
  have r: "rsi_at 2 (Suc 0) [10, 10, 10] = NaN" "rsi_at 2 2 [10, 10, 10] = NaN"
    by (simp_all add: rsi_at_def avg_gain_def avg_loss_def g l mean_def)
  from add_rsi_cells [OF h n(2)] add_rsi_cells [OF h n(3)]
    add_boll_cells [of 1 0 bars_flat 2, OF _ n(1)] add_boll_cells [of 1 2 bars_flat 2, OF _ n(3)]
  show ?thesis
    by (auto simp add: closes_flat r)
qed

end
